theory Spec2Isabelle
  imports Complex_Main
begin

section \<open>Data model\<close>

text \<open>
  The development covers the two group sockets (\<^verbatim>\<open>MarketGroupSocket\<close>,
  \<^verbatim>\<open>UserGroupSocket\<close>), the shared \<^verbatim>\<open>BaseSubscriptionManager\<close> and
  the two subscription managers of poly-websockets.

  Conventions of the embedding:
  \<^item> a handler record holds optional callbacks; a field of the record says whether the
    callback is defined, and a call \<^verbatim>\<open>handlers.onX?.(args)\<close> is an entry of the
    returned trace when it is defined (\<open>invoke\<close>);
  \<^item> callbacks are taken to return normally, and the sequence of \<^verbatim>\<open>await\<close>s is
    the order of the trace;
  \<^item> calls of \<^verbatim>\<open>logger.debug\<close> and \<^verbatim>\<open>logger.info\<close> are left out; the
    warning of the market filter is kept;
  \<^item> the built-ins \<^verbatim>\<open>JSON.parse\<close> and \<^verbatim>\<open>parseFloat(s).toString()\<close> are
    parameters (\<open>parse\<close>, \<open>normalizePrice\<close>) of the functions that call them;
  \<^item> the operations of the book cache, whose module is not among the sources, are a
    parameter (\<open>cache\<close>) of the functions that call them, and the cache that the
    specification describes is one value of that parameter;
  \<^item> a parsed frame is an event or an array of events of the TypeScript event type of
    the channel, with \<open>event_type\<close>, \<open>asset_id\<close> and \<open>market\<close> possibly
    missing; JSON values of another shape are outside the model;
  \<^item> a decimal string of a price level is represented by the rational number it denotes.
\<close>

text \<open>Modelled from the spec: the status enumeration of
  \<^verbatim>\<open>types/WebSocketSubscriptions\<close>, whose declaration is not among the sources.\<close>

datatype WebSocketStatus = PENDING | ALIVE | DEAD | CLEANUP

text \<open>The websocket handle of the \<^verbatim>\<open>ws\<close> library. The only thing the sockets
  ask of it on open is \<^verbatim>\<open>send\<close>, which either returns or throws.\<close>

record WebSocket =
  send_throws :: bool

record ApiCredentials =
  apiKey :: string
  secret :: string
  passphrase :: string

text \<open>Modelled from the spec: the group records of \<^verbatim>\<open>types/WebSocketSubscriptions\<close>.
  The key sets are JavaScript \<^verbatim>\<open>Set\<close>s, which iterate in insertion order, hence lists;
  \<^verbatim>\<open>has\<close> is membership and \<^verbatim>\<open>size\<close> the length.\<close>

record Group =
  groupId :: string
  status :: WebSocketStatus
  wsClient :: "WebSocket option"

record WebSocketGroup = Group +
  assetIds :: "string list"

record UserWebSocketGroup = Group +
  marketIds :: "string list"
  auth :: ApiCredentials
  subscribeToAll :: bool

datatype Side = BUY | SELL

record PriceLevel =
  level_price :: rat
  level_size :: rat

record PriceChangeItem =
  change_price :: rat
  change_size :: rat
  change_side :: Side

text \<open>Modelled from the spec: the wire events of the market channel
  (\<^verbatim>\<open>types/PolymarketWebSocket\<close>). One record carries the fields of all four kinds;
  \<open>event_type\<close> and \<open>asset_id\<close> are optional because the socket checks for
  their absence.\<close>

record PolymarketWSEvent =
  event_type :: "string option"
  asset_id :: "string option"
  timestamp :: string
  bids :: "PriceLevel list"
  asks :: "PriceLevel list"
  hash :: string
  changes :: "PriceChangeItem list"
  price :: string

record PolymarketPriceUpdateEvent =
  pu_asset_id :: "string option"
  pu_event_type :: string
  triggeringEvent :: PolymarketWSEvent
  pu_timestamp :: string
  pu_bids :: "PriceLevel list"
  pu_asks :: "PriceLevel list"
  pu_price :: string
  pu_midpoint :: string
  pu_spread :: string

text \<open>Modelled from the spec: the events of the user channel, which carry a
  \<^verbatim>\<open>market\<close> field used for filtering.\<close>

record PolymarketUserWSEvent =
  u_event_type :: "string option"
  market :: "string option"
  u_payload :: string

text \<open>The value of \<^verbatim>\<open>JSON.parse\<close> as the sockets look at it: an array of
  events or a single event.\<close>

datatype 'e parsed = Single 'e | Array "'e list"

text \<open>\<^verbatim>\<open>Array.isArray(parsedData) ? parsedData : [parsedData]\<close>\<close>

definition toArray :: "'e parsed \<Rightarrow> 'e list" where
  "toArray parsedData = (case parsedData of Array evs \<Rightarrow> evs | Single ev \<Rightarrow> [ev])"

datatype error_value =
    NotJSON string
  | UnknownEvent PolymarketWSEvent

datatype subscription_message =
    MarketSubscription "string list" bool
  | UserSubscription "string list" ApiCredentials

text \<open>What a socket does to the outside, in order: calls of handlers, the two
  mutating calls of the book cache, the subscription frame and the heartbeat timer.\<close>

datatype action =
    OnBook "PolymarketWSEvent list"
  | OnTickSizeChange "PolymarketWSEvent list"
  | OnPriceChange "PolymarketWSEvent list"
  | OnLastTradePrice "PolymarketWSEvent list"
  | OnPolymarketPriceUpdate "PolymarketPriceUpdateEvent list"
  | OnOrder "PolymarketUserWSEvent list"
  | OnTrade "PolymarketUserWSEvent list"
  | OnError error_value
  | OnWSOpen string "string list"
  | CacheReplaceBook PolymarketWSEvent
  | CacheUpsertPriceChange PolymarketWSEvent
  | WsSend subscription_message
  | StartPingInterval

record WebSocketHandlers =
  onBook :: bool
  onTickSizeChange :: bool
  onPriceChange :: bool
  onLastTradePrice :: bool
  onPolymarketPriceUpdate :: bool
  onError :: bool
  onWSOpen :: bool
  onWSClose :: bool

record UserWebSocketHandlers =
  onOrder :: bool
  onTrade :: bool
  u_onError :: bool
  u_onWSOpen :: bool
  u_onWSClose :: bool

definition invoke :: "bool \<Rightarrow> action \<Rightarrow> action list" where
  "invoke defined a = (if defined then [a] else [])"

section \<open>The order book cache\<close>

text \<open>\<^verbatim>\<open>modules/OrderBookCache\<close> is not among the sources. The socket is
  translated against the interface of the cache (\<open>OrderBookCacheOps\<close>); the
  cache of the specification (\<open>specOrderBookCache\<close>) is modelled from its sections
  3 and 4.1, which give the entries, the operations and their failures.\<close>

text \<open>Modelled from the spec: the entry of an asset (section 3). The three derived
  values are strings, empty until they are first set.\<close>

record BookEntry =
  be_bids :: "PriceLevel list"
  be_asks :: "PriceLevel list"
  be_price :: string
  be_midpoint :: string
  be_spread :: string
  be_hash :: string
  be_timestamp :: string

type_synonym OrderBookCache = "string \<rightharpoonup> BookEntry"

text \<open>Modelled from the spec: the two failures of the cache operations.\<close>

datatype cache_error = BookNotFound | IncompleteBook

text \<open>Modelled from the spec: decimal digits, for the strings of midpoint and
  spread.\<close>

definition digit_char :: "nat \<Rightarrow> char" where
  "digit_char d = ''0123456789'' ! (d mod 10)"

fun nat_digits :: "nat \<Rightarrow> nat \<Rightarrow> string" where
  "nat_digits 0 n = []"
| "nat_digits (Suc k) n =
     (if n < 10 then [digit_char n] else nat_digits k (n div 10) @ [digit_char (n mod 10)])"

fun frac_digits :: "nat \<Rightarrow> rat \<Rightarrow> string" where
  "frac_digits 0 f = []"
| "frac_digits (Suc k) f =
     (if f = 0 then []
      else digit_char (nat \<lfloor>f * 10\<rfloor>) # frac_digits k (f * 10 - of_int \<lfloor>f * 10\<rfloor>))"

text \<open>Modelled from the spec: the decimal string of a number, without trailing zeros,
  to at most 20 digits on each side of the point.\<close>

definition decimal_string :: "rat \<Rightarrow> string" where
  "decimal_string r =
     (let a = \<bar>r\<bar>; n = nat \<lfloor>a\<rfloor>; f = a - of_nat n
      in (if r < 0 then ''-'' else [])
         @ nat_digits 20 n
         @ (if f = 0 then [] else CHR ''.'' # frac_digits 20 f))"

text \<open>Modelled from the spec: the best bid is the highest price among the bids and the
  best ask the lowest price among the asks; a side without levels has none.\<close>

definition bestBid :: "PriceLevel list \<Rightarrow> rat option" where
  "bestBid ls =
     (case ls of [] \<Rightarrow> None
      | l # rest \<Rightarrow> Some (fold max (map level_price rest) (level_price l)))"

definition bestAsk :: "PriceLevel list \<Rightarrow> rat option" where
  "bestAsk ls =
     (case ls of [] \<Rightarrow> None
      | l # rest \<Rightarrow> Some (fold min (map level_price rest) (level_price l)))"

text \<open>Modelled from the spec: spread = bestAsk - bestBid and
  midpoint = (bestBid + bestAsk) / 2, defined when both sides have a level.\<close>

definition book_spread :: "BookEntry \<Rightarrow> rat option" where
  "book_spread be =
     (case (bestBid (be_bids be), bestAsk (be_asks be)) of
        (Some b, Some a) \<Rightarrow> Some (a - b)
      | _ \<Rightarrow> None)"

definition book_midpoint :: "BookEntry \<Rightarrow> rat option" where
  "book_midpoint be =
     (case (bestBid (be_bids be), bestAsk (be_asks be)) of
        (Some b, Some a) \<Rightarrow> Some ((b + a) / 2)
      | _ \<Rightarrow> None)"

definition opt_string :: "rat option \<Rightarrow> string" where
  "opt_string r = (case r of None \<Rightarrow> [] | Some x \<Rightarrow> decimal_string x)"

text \<open>The key under which the cache files an event. The private handlers of the
  socket only see events whose \<open>asset_id\<close> is a string of the group.\<close>

definition asset_key :: "PolymarketWSEvent \<Rightarrow> string" where
  "asset_key e = (case asset_id e of None \<Rightarrow> [] | Some a \<Rightarrow> a)"

text \<open>The five operations that \<^verbatim>\<open>MarketGroupSocket\<close> calls on its cache, on a
  cache state that maps an asset to its entry. An operation that throws is \<open>Inl\<close>
  and leaves the state as it was; \<^verbatim>\<open>spreadOver\<close> and \<^verbatim>\<open>midpoint\<close> return
  the state with their value, since they may record what they computed.\<close>

record OrderBookCacheOps =
  replaceBook :: "PolymarketWSEvent \<Rightarrow> OrderBookCache \<Rightarrow> OrderBookCache"
  upsertPriceChange :: "PolymarketWSEvent \<Rightarrow> OrderBookCache \<Rightarrow> cache_error + OrderBookCache"
  spreadOver :: "string \<Rightarrow> rat \<Rightarrow> OrderBookCache \<Rightarrow> cache_error + bool \<times> OrderBookCache"
  midpoint :: "string \<Rightarrow> OrderBookCache \<Rightarrow> cache_error + string \<times> OrderBookCache"
  getBookEntry :: "string \<Rightarrow> OrderBookCache \<Rightarrow> BookEntry option"

text \<open>Modelled from the spec: \<^verbatim>\<open>getBookEntry\<close> returns the entry or null.\<close>

definition OrderBookCache_getBookEntry :: "string \<Rightarrow> OrderBookCache \<Rightarrow> BookEntry option" where
  "OrderBookCache_getBookEntry a c = c a"

text \<open>Modelled from the spec: \<^verbatim>\<open>replaceBook\<close> replaces bids, asks, hash and
  timestamp of the asset's entry by the snapshot of the event and recomputes midpoint
  and spread when both sides exist, else leaves them empty. The stored price of an
  existing entry is kept.\<close>

definition OrderBookCache_replaceBook ::
  "PolymarketWSEvent \<Rightarrow> OrderBookCache \<Rightarrow> OrderBookCache" where
  "OrderBookCache_replaceBook e c =
     (let be = \<lparr> be_bids = bids e, be_asks = asks e,
                 be_price = (case c (asset_key e) of None \<Rightarrow> [] | Some old \<Rightarrow> be_price old),
                 be_midpoint = [], be_spread = [],
                 be_hash = hash e, be_timestamp = timestamp e \<rparr>
      in c(asset_key e \<mapsto>
            be\<lparr> be_midpoint := opt_string (book_midpoint be),
                be_spread := opt_string (book_spread be) \<rparr>))"

text \<open>Modelled from the spec: a delta \<open>(price, size, side)\<close> removes the level at
  that price when the size is 0 and otherwise sets it, keeping bids in descending and
  asks in ascending order of price.\<close>

fun insert_level :: "(rat \<Rightarrow> rat \<Rightarrow> bool) \<Rightarrow> PriceLevel \<Rightarrow> PriceLevel list \<Rightarrow> PriceLevel list" where
  "insert_level before l [] = [l]"
| "insert_level before l (x # xs) =
     (if before (level_price l) (level_price x) then l # x # xs
      else x # insert_level before l xs)"

definition upsert_level ::
  "(rat \<Rightarrow> rat \<Rightarrow> bool) \<Rightarrow> rat \<Rightarrow> rat \<Rightarrow> PriceLevel list \<Rightarrow> PriceLevel list" where
  "upsert_level before p s ls =
     (let others = filter (\<lambda>l. level_price l \<noteq> p) ls
      in if s = 0 then others
         else insert_level before \<lparr> level_price = p, level_size = s \<rparr> others)"

definition apply_change :: "PriceChangeItem \<Rightarrow> BookEntry \<Rightarrow> BookEntry" where
  "apply_change ch be =
     (case change_side ch of
        BUY \<Rightarrow> be\<lparr> be_bids := upsert_level (\<lambda>p q. q < p) (change_price ch) (change_size ch) (be_bids be) \<rparr>
      | SELL \<Rightarrow> be\<lparr> be_asks := upsert_level (\<lambda>p q. p < q) (change_price ch) (change_size ch) (be_asks be) \<rparr>)"

text \<open>Modelled from the spec: \<^verbatim>\<open>upsertPriceChange\<close> applies each delta of the
  event in turn and fails with BookNotFound when the asset has no entry.\<close>

definition OrderBookCache_upsertPriceChange ::
  "PolymarketWSEvent \<Rightarrow> OrderBookCache \<Rightarrow> cache_error + OrderBookCache" where
  "OrderBookCache_upsertPriceChange e c =
     (case c (asset_key e) of
        None \<Rightarrow> Inl BookNotFound
      | Some be \<Rightarrow> Inr (c(asset_key e \<mapsto> fold apply_change (changes e) be)))"

text \<open>Modelled from the spec: \<^verbatim>\<open>spreadOver\<close> returns true iff the spread is at
  least the threshold; it fails with BookNotFound or, when a side is empty, with
  IncompleteBook. The spread it computes becomes the entry's \<open>spread\<close>, the last
  computed value of section 3.\<close>

definition OrderBookCache_spreadOver ::
  "string \<Rightarrow> rat \<Rightarrow> OrderBookCache \<Rightarrow> cache_error + bool \<times> OrderBookCache" where
  "OrderBookCache_spreadOver a threshold c =
     (case c a of
        None \<Rightarrow> Inl BookNotFound
      | Some be \<Rightarrow>
          (case book_spread be of
             None \<Rightarrow> Inl IncompleteBook
           | Some s \<Rightarrow> Inr (threshold \<le> s, c(a \<mapsto> be\<lparr> be_spread := decimal_string s \<rparr>))))"

text \<open>Modelled from the spec: \<^verbatim>\<open>midpoint\<close> returns the current midpoint as a
  string and fails like \<^verbatim>\<open>spreadOver\<close>. The midpoint it computes becomes the
  entry's \<open>midpoint\<close>, the last computed value of section 3.\<close>

definition OrderBookCache_midpoint ::
  "string \<Rightarrow> OrderBookCache \<Rightarrow> cache_error + string \<times> OrderBookCache" where
  "OrderBookCache_midpoint a c =
     (case c a of
        None \<Rightarrow> Inl BookNotFound
      | Some be \<Rightarrow>
          (case book_midpoint be of
             None \<Rightarrow> Inl IncompleteBook
           | Some m \<Rightarrow>
               Inr (decimal_string m, c(a \<mapsto> be\<lparr> be_midpoint := decimal_string m \<rparr>))))"

text \<open>Modelled from the spec: the cache of sections 3 and 4.1.\<close>

definition specOrderBookCache :: OrderBookCacheOps where
  "specOrderBookCache =
     \<lparr> replaceBook = OrderBookCache_replaceBook,
       upsertPriceChange = OrderBookCache_upsertPriceChange,
       spreadOver = OrderBookCache_spreadOver,
       midpoint = OrderBookCache_midpoint,
       getBookEntry = OrderBookCache_getBookEntry \<rparr>"

section \<open>The market group socket\<close>

text \<open>The fields of a \<^verbatim>\<open>MarketGroupSocket\<close>; \<open>bookCache\<close> is the state of
  the cache object it shares with the manager.\<close>

record MarketGroupSocket =
  group :: WebSocketGroup
  bookCache :: OrderBookCache
  handlers :: WebSocketHandlers
  initialDump :: bool

definition setGroupStatus :: "WebSocketStatus \<Rightarrow> MarketGroupSocket \<Rightarrow> MarketGroupSocket" where
  "setGroupStatus st s = s\<lparr> group := (group s)\<lparr> status := st \<rparr> \<rparr>"

definition getWebSocketClient :: "MarketGroupSocket \<Rightarrow> WebSocket option" where
  "getWebSocketClient s = wsClient (group s)"

definition shouldCleanup :: "MarketGroupSocket \<Rightarrow> bool" where
  "shouldCleanup s = (length (assetIds (group s)) = 0)"

definition createSubscriptionMessage :: "MarketGroupSocket \<Rightarrow> subscription_message" where
  "createSubscriptionMessage s = MarketSubscription (assetIds (group s)) (initialDump s)"

text \<open>\<^verbatim>\<open>MarketGroupSocket.handleOpen\<close>. The status is set to ALIVE before the
  socket handle is looked at, and the send is guarded by \<^verbatim>\<open>if (wsClient)\<close>.\<close>

definition handleOpen :: "MarketGroupSocket \<Rightarrow> MarketGroupSocket \<times> action list" where
  "handleOpen s =
     (if shouldCleanup s then (setGroupStatus CLEANUP s, [])
      else
        let s1 = setGroupStatus ALIVE s;
            opened = invoke (onWSOpen (handlers s1))
                       (OnWSOpen (groupId (group s1)) (assetIds (group s1)))
                     @ [StartPingInterval]
        in (case getWebSocketClient s1 of
              Some ws \<Rightarrow>
                if send_throws ws then (setGroupStatus DEAD s1, [])
                else (s1, WsSend (createSubscriptionMessage s1) # opened)
            | None \<Rightarrow> (s1, opened)))"

text \<open>Modelled from the spec: the type guards of \<^verbatim>\<open>types/PolymarketWebSocket\<close>;
  the kinds are discriminated by \<^verbatim>\<open>event_type\<close>.\<close>

definition isBookEvent :: "PolymarketWSEvent \<Rightarrow> bool" where
  "isBookEvent e = (event_type e = Some ''book'')"

definition isLastTradePriceEvent :: "PolymarketWSEvent \<Rightarrow> bool" where
  "isLastTradePriceEvent e = (event_type e = Some ''last_trade_price'')"

definition isTickSizeChangeEvent :: "PolymarketWSEvent \<Rightarrow> bool" where
  "isTickSizeChangeEvent e = (event_type e = Some ''tick_size_change'')"

definition isPriceChangeEvent :: "PolymarketWSEvent \<Rightarrow> bool" where
  "isPriceChangeEvent e = (event_type e = Some ''price_change'')"

text \<open>\<^verbatim>\<open>_.size\<close> of lodash on a string or on \<^verbatim>\<open>undefined\<close>, and
  \<^verbatim>\<open>Set.has\<close>.\<close>

definition lodash_size :: "string option \<Rightarrow> nat" where
  "lodash_size v = (case v of None \<Rightarrow> 0 | Some s \<Rightarrow> length s)"

definition has :: "string list \<Rightarrow> string option \<Rightarrow> bool" where
  "has keys v = (case v of None \<Rightarrow> False | Some a \<Rightarrow> a \<in> set keys)"

record buckets =
  bookEvents :: "PolymarketWSEvent list"
  lastTradeEvents :: "PolymarketWSEvent list"
  tickEvents :: "PolymarketWSEvent list"
  priceChangeEvents :: "PolymarketWSEvent list"

definition no_buckets :: buckets where
  "no_buckets = \<lparr> bookEvents = [], lastTradeEvents = [], tickEvents = [], priceChangeEvents = [] \<rparr>"

text \<open>The loop of \<^verbatim>\<open>handleMessage\<close> over the events of a frame: an event of an
  asset outside the group is skipped, the others are pushed to the array of their kind,
  and an event of no known kind is reported to \<^verbatim>\<open>onError\<close>.\<close>

fun bucketEvents ::
  "WebSocketHandlers \<Rightarrow> string list \<Rightarrow> PolymarketWSEvent list \<Rightarrow> buckets \<times> action list" where
  "bucketEvents hs keys [] = (no_buckets, [])"
| "bucketEvents hs keys (e # es) =
     (let (b, acts) = bucketEvents hs keys es
      in if \<not> has keys (asset_id e) then (b, acts)
         else if isBookEvent e then (b\<lparr> bookEvents := e # bookEvents b \<rparr>, acts)
         else if isLastTradePriceEvent e then (b\<lparr> lastTradeEvents := e # lastTradeEvents b \<rparr>, acts)
         else if isTickSizeChangeEvent e then (b\<lparr> tickEvents := e # tickEvents b \<rparr>, acts)
         else if isPriceChangeEvent e then (b\<lparr> priceChangeEvents := e # priceChangeEvents b \<rparr>, acts)
         else (b, invoke (onError hs) (OnError (UnknownEvent e)) @ acts))"

fun replaceBooks ::
  "OrderBookCacheOps \<Rightarrow> PolymarketWSEvent list \<Rightarrow> OrderBookCache
     \<Rightarrow> OrderBookCache \<times> action list" where
  "replaceBooks cache [] c = (c, [])"
| "replaceBooks cache (e # es) c =
     (let (c', acts) = replaceBooks cache es (replaceBook cache e c)
      in (c', CacheReplaceBook e # acts))"

definition handleBookEvents ::
  "OrderBookCacheOps \<Rightarrow> WebSocketHandlers \<Rightarrow> PolymarketWSEvent list \<Rightarrow> OrderBookCache
     \<Rightarrow> OrderBookCache \<times> action list" where
  "handleBookEvents cache hs evs c =
     (if evs \<noteq> [] then
        let (c', acts) = replaceBooks cache evs c in (c', acts @ invoke (onBook hs) (OnBook evs))
      else (c, []))"

definition handleTickEvents :: "WebSocketHandlers \<Rightarrow> PolymarketWSEvent list \<Rightarrow> action list" where
  "handleTickEvents hs evs =
     (if evs \<noteq> [] then invoke (onTickSizeChange hs) (OnTickSizeChange evs) else [])"

definition priceUpdateEvent ::
  "PolymarketWSEvent \<Rightarrow> BookEntry \<Rightarrow> string \<Rightarrow> PolymarketPriceUpdateEvent" where
  "priceUpdateEvent e bookEntry newPrice =
     \<lparr> pu_asset_id = asset_id e, pu_event_type = ''price_update'', triggeringEvent = e,
       pu_timestamp = timestamp e, pu_bids = be_bids bookEntry, pu_asks = be_asks bookEntry,
       pu_price = newPrice, pu_midpoint = be_midpoint bookEntry,
       pu_spread = be_spread bookEntry \<rparr>"

text \<open>The assignment \<^verbatim>\<open>bookEntry.price = newPrice\<close> followed by the call of
  \<^verbatim>\<open>onPolymarketPriceUpdate\<close> with a one-element array. The entry returned by
  \<^verbatim>\<open>getBookEntry\<close> is the cache's own object, so the assignment is a write to the
  entry that the cache holds for the asset.\<close>

definition storeAndEmit ::
  "WebSocketHandlers \<Rightarrow> PolymarketWSEvent \<Rightarrow> BookEntry \<Rightarrow> string \<Rightarrow> OrderBookCache
     \<Rightarrow> OrderBookCache \<times> action list" where
  "storeAndEmit hs e bookEntry newPrice c =
     (c(asset_key e \<mapsto> bookEntry\<lparr> be_price := newPrice \<rparr>),
      invoke (onPolymarketPriceUpdate hs)
        (OnPolymarketPriceUpdate [priceUpdateEvent e bookEntry newPrice]))"

text \<open>The body of the loop of \<^verbatim>\<open>handlePriceChangeEvents\<close>: every
  \<^verbatim>\<open>catch\<close> and every missing entry is a \<^verbatim>\<open>continue\<close>.\<close>

definition priceChangeEvent ::
  "OrderBookCacheOps \<Rightarrow> WebSocketHandlers \<Rightarrow> PolymarketWSEvent \<Rightarrow> OrderBookCache
     \<Rightarrow> OrderBookCache \<times> action list" where
  "priceChangeEvent cache hs e c =
     (case upsertPriceChange cache e c of
        Inl err \<Rightarrow> (c, [CacheUpsertPriceChange e])
      | Inr c1 \<Rightarrow>
          (case spreadOver cache (asset_key e) (1 / 10) c1 of
             Inl err \<Rightarrow> (c1, [CacheUpsertPriceChange e])
           | Inr (spreadOver10Cents, c2) \<Rightarrow>
               if \<not> spreadOver10Cents then
                 (case midpoint cache (asset_key e) c2 of
                    Inl err \<Rightarrow> (c2, [CacheUpsertPriceChange e])
                  | Inr (newPrice, c3) \<Rightarrow>
                      (case getBookEntry cache (asset_key e) c3 of
                         None \<Rightarrow> (c3, [CacheUpsertPriceChange e])
                       | Some bookEntry \<Rightarrow>
                           if newPrice \<noteq> be_price bookEntry then
                             let (c4, acts) = storeAndEmit hs e bookEntry newPrice c3
                             in (c4, CacheUpsertPriceChange e # acts)
                           else (c3, [CacheUpsertPriceChange e])))
               else (c2, [CacheUpsertPriceChange e])))"

fun priceChangeLoop ::
  "OrderBookCacheOps \<Rightarrow> WebSocketHandlers \<Rightarrow> PolymarketWSEvent list \<Rightarrow> OrderBookCache
     \<Rightarrow> OrderBookCache \<times> action list" where
  "priceChangeLoop cache hs [] c = (c, [])"
| "priceChangeLoop cache hs (e # es) c =
     (let (c1, a1) = priceChangeEvent cache hs e c;
          (c2, a2) = priceChangeLoop cache hs es c1
      in (c2, a1 @ a2))"

definition handlePriceChangeEvents ::
  "OrderBookCacheOps \<Rightarrow> WebSocketHandlers \<Rightarrow> PolymarketWSEvent list \<Rightarrow> OrderBookCache
     \<Rightarrow> OrderBookCache \<times> action list" where
  "handlePriceChangeEvents cache hs evs c =
     (if evs \<noteq> [] then
        let (c', acts) = priceChangeLoop cache hs evs c
        in (c', invoke (onPriceChange hs) (OnPriceChange evs) @ acts)
      else (c, []))"

text \<open>The body of the loop of \<^verbatim>\<open>handleLastTradeEvents\<close>; \<open>normalizePrice\<close> stands for
  \<^verbatim>\<open>parseFloat(event.price).toString()\<close>.\<close>

definition lastTradeEvent ::
  "(string \<Rightarrow> string) \<Rightarrow> OrderBookCacheOps \<Rightarrow> WebSocketHandlers \<Rightarrow> PolymarketWSEvent
     \<Rightarrow> OrderBookCache \<Rightarrow> OrderBookCache \<times> action list" where
  "lastTradeEvent normalizePrice cache hs e c =
     (case spreadOver cache (asset_key e) (1 / 10) c of
        Inl err \<Rightarrow> (c, [])
      | Inr (spreadOver10Cents, c1) \<Rightarrow>
          if spreadOver10Cents then
            let newPrice = normalizePrice (price e)
            in (case getBookEntry cache (asset_key e) c1 of
                  None \<Rightarrow> (c1, [])
                | Some bookEntry \<Rightarrow>
                    if newPrice \<noteq> be_price bookEntry then storeAndEmit hs e bookEntry newPrice c1
                    else (c1, []))
          else (c1, []))"

fun lastTradeLoop ::
  "(string \<Rightarrow> string) \<Rightarrow> OrderBookCacheOps \<Rightarrow> WebSocketHandlers \<Rightarrow> PolymarketWSEvent list
     \<Rightarrow> OrderBookCache \<Rightarrow> OrderBookCache \<times> action list" where
  "lastTradeLoop normalizePrice cache hs [] c = (c, [])"
| "lastTradeLoop normalizePrice cache hs (e # es) c =
     (let (c1, a1) = lastTradeEvent normalizePrice cache hs e c;
          (c2, a2) = lastTradeLoop normalizePrice cache hs es c1
      in (c2, a1 @ a2))"

definition handleLastTradeEvents ::
  "(string \<Rightarrow> string) \<Rightarrow> OrderBookCacheOps \<Rightarrow> WebSocketHandlers \<Rightarrow> PolymarketWSEvent list
     \<Rightarrow> OrderBookCache \<Rightarrow> OrderBookCache \<times> action list" where
  "handleLastTradeEvents normalizePrice cache hs evs c =
     (if evs \<noteq> [] then
        let (c', acts) = lastTradeLoop normalizePrice cache hs evs c
        in (c', invoke (onLastTradePrice hs) (OnLastTradePrice evs) @ acts)
      else (c, []))"

text \<open>\<^verbatim>\<open>handleMessage\<close> after the frame has been parsed: the filter on
  \<^verbatim>\<open>_.size(event.asset_id) > 0\<close>, the bucketing loop and the four handlers in the
  order of the source.\<close>

definition handleEvents ::
  "(string \<Rightarrow> string) \<Rightarrow> OrderBookCacheOps \<Rightarrow> MarketGroupSocket \<Rightarrow> PolymarketWSEvent list
     \<Rightarrow> MarketGroupSocket \<times> action list" where
  "handleEvents normalizePrice cache s parsedEvents =
     (let events = filter (\<lambda>e. 0 < lodash_size (asset_id e)) parsedEvents;
          (b, errs) = bucketEvents (handlers s) (assetIds (group s)) events;
          (c1, a1) = handleBookEvents cache (handlers s) (bookEvents b) (bookCache s);
          a2 = handleTickEvents (handlers s) (tickEvents b);
          (c3, a3) = handlePriceChangeEvents cache (handlers s) (priceChangeEvents b) c1;
          (c4, a4) = handleLastTradeEvents normalizePrice cache (handlers s) (lastTradeEvents b) c3
      in (s\<lparr> bookCache := c4 \<rparr>, errs @ a1 @ a2 @ a3 @ a4))"

definition handleMessage ::
  "(string \<Rightarrow> PolymarketWSEvent parsed option) \<Rightarrow> (string \<Rightarrow> string) \<Rightarrow> OrderBookCacheOps
     \<Rightarrow> MarketGroupSocket \<Rightarrow> string \<Rightarrow> MarketGroupSocket \<times> action list" where
  "handleMessage parse normalizePrice cache s data =
     (case parse data of
        None \<Rightarrow> (s, invoke (onError (handlers s)) (OnError (NotJSON data)))
      | Some parsedData \<Rightarrow>
          handleEvents normalizePrice cache s (toArray parsedData))"

section \<open>The user group socket\<close>

record UserGroupSocket =
  u_group :: UserWebSocketGroup
  u_handlers :: UserWebSocketHandlers

definition setGroupStatus_user :: "WebSocketStatus \<Rightarrow> UserGroupSocket \<Rightarrow> UserGroupSocket" where
  "setGroupStatus_user st s = s\<lparr> u_group := (u_group s)\<lparr> status := st \<rparr> \<rparr>"

definition shouldCleanup_user :: "UserGroupSocket \<Rightarrow> bool" where
  "shouldCleanup_user s =
     (length (marketIds (u_group s)) = 0 \<and> \<not> subscribeToAll (u_group s))"

definition createSubscriptionMessage_user :: "UserGroupSocket \<Rightarrow> subscription_message" where
  "createSubscriptionMessage_user s =
     UserSubscription (marketIds (u_group s))
       \<lparr> apiKey = apiKey (auth (u_group s)), secret = secret (auth (u_group s)),
         passphrase = passphrase (auth (u_group s)) \<rparr>"

definition handleOpen_user :: "UserGroupSocket \<Rightarrow> UserGroupSocket \<times> action list" where
  "handleOpen_user s =
     (if shouldCleanup_user s then (setGroupStatus_user CLEANUP s, [])
      else
        (case wsClient (u_group s) of
           None \<Rightarrow> (setGroupStatus_user DEAD s, [])
         | Some ws \<Rightarrow>
             if send_throws ws then (setGroupStatus_user DEAD s, [])
             else
               let s1 = setGroupStatus_user ALIVE s
               in (s1, WsSend (createSubscriptionMessage_user s)
                       # invoke (u_onWSOpen (u_handlers s1))
                           (OnWSOpen (groupId (u_group s1)) (marketIds (u_group s1)))
                       @ [StartPingInterval])))"

text \<open>Modelled from the spec: the type guards of the user channel, by
  \<^verbatim>\<open>event_type\<close>.\<close>

definition isOrderEvent :: "PolymarketUserWSEvent \<Rightarrow> bool" where
  "isOrderEvent e = (u_event_type e = Some ''order'')"

definition isTradeEvent :: "PolymarketUserWSEvent \<Rightarrow> bool" where
  "isTradeEvent e = (u_event_type e = Some ''trade'')"

text \<open>The filter \<^verbatim>\<open>event && typeof event === 'object' && event.event_type\<close> on a
  typed event: the discriminator is present and not the empty string.\<close>

definition validStructure :: "PolymarketUserWSEvent \<Rightarrow> bool" where
  "validStructure e = (case u_event_type e of None \<Rightarrow> False | Some k \<Rightarrow> k \<noteq> [])"

fun bucketUserEvents ::
  "PolymarketUserWSEvent list \<Rightarrow> PolymarketUserWSEvent list \<times> PolymarketUserWSEvent list" where
  "bucketUserEvents [] = ([], [])"
| "bucketUserEvents (e # es) =
     (let (orderEvents, tradeEvents) = bucketUserEvents es
      in if isOrderEvent e then (e # orderEvents, tradeEvents)
         else if isTradeEvent e then (orderEvents, e # tradeEvents)
         else (orderEvents, tradeEvents))"

definition handleEvents_user ::
  "UserGroupSocket \<Rightarrow> PolymarketUserWSEvent list \<Rightarrow> UserGroupSocket \<times> action list" where
  "handleEvents_user s parsedEvents =
     (let events = filter validStructure parsedEvents;
          (orderEvents, tradeEvents) = bucketUserEvents events
      in (s, (if 0 < length orderEvents then invoke (onOrder (u_handlers s)) (OnOrder orderEvents) else [])
             @ (if 0 < length tradeEvents then invoke (onTrade (u_handlers s)) (OnTrade tradeEvents) else [])))"

definition handleMessage_user ::
  "(string \<Rightarrow> PolymarketUserWSEvent parsed option) \<Rightarrow> UserGroupSocket \<Rightarrow> string
     \<Rightarrow> UserGroupSocket \<times> action list" where
  "handleMessage_user parse s data =
     (case parse data of
        None \<Rightarrow> (s, invoke (u_onError (u_handlers s)) (OnError (NotJSON data)))
      | Some parsedData \<Rightarrow>
          handleEvents_user s (toArray parsedData))"

section \<open>The subscription managers\<close>

datatype log_entry = WarnMultipleGroups "string option" "nat list"

text \<open>Modelled from the spec: the lookups of \<^verbatim>\<open>modules/GroupRegistry\<close> and
  \<^verbatim>\<open>modules/UserGroupRegistry\<close>, which are not among the sources. A registry is
  the list of its groups; an asset or a market belongs to a group when it is in the
  group's key set.\<close>

definition getGroupIndicesForAsset :: "WebSocketGroup list \<Rightarrow> string option \<Rightarrow> nat list" where
  "getGroupIndicesForAsset groups a =
     filter (\<lambda>i. has (assetIds (groups ! i)) a) [0..<length groups]"

text \<open>Modelled from the spec: \<^verbatim>\<open>hasSubscribeToAll\<close> and \<^verbatim>\<open>hasMarket\<close>
  of the user registry.\<close>

definition hasSubscribeToAll :: "UserWebSocketGroup list \<Rightarrow> bool" where
  "hasSubscribeToAll groups = list_ex subscribeToAll groups"

definition hasMarket :: "UserWebSocketGroup list \<Rightarrow> string \<Rightarrow> bool" where
  "hasMarket groups marketId = list_ex (\<lambda>g. marketId \<in> set (marketIds g)) groups"

text \<open>\<^verbatim>\<open>WSSubscriptionManager.filterSubscribedEvents\<close>, generic in the event
  type: \<open>asset_of\<close> reads \<^verbatim>\<open>event.asset_id\<close>. The second component is what
  is passed to \<^verbatim>\<open>logger.warn\<close>.\<close>

definition filterSubscribedEvents ::
  "('e \<Rightarrow> string option) \<Rightarrow> WebSocketGroup list \<Rightarrow> 'e list \<Rightarrow> 'e list \<times> log_entry list" where
  "filterSubscribedEvents asset_of groups events =
     (filter (\<lambda>event. 0 < length (getGroupIndicesForAsset groups (asset_of event))) events,
      concat (map (\<lambda>event.
                let groupIndices = getGroupIndicesForAsset groups (asset_of event)
                in if 1 < length groupIndices
                   then [WarnMultipleGroups (asset_of event) groupIndices] else [])
              events))"

text \<open>\<^verbatim>\<open>UserWSSubscriptionManager.filterSubscribedEvents\<close>;
  \<^verbatim>\<open>event.market || ''\<close> is the empty string when the field is missing.\<close>

definition filterSubscribedEvents_user ::
  "UserWebSocketGroup list \<Rightarrow> PolymarketUserWSEvent list
     \<Rightarrow> PolymarketUserWSEvent list \<times> log_entry list" where
  "filterSubscribedEvents_user groups events =
     (if hasSubscribeToAll groups then (events, [])
      else (filter (\<lambda>event. hasMarket groups (case market event of None \<Rightarrow> [] | Some m \<Rightarrow> m))
              events, []))"

text \<open>\<^verbatim>\<open>BaseSubscriptionManager.actOnSubscribedEvents\<close>. The abstract
  \<^verbatim>\<open>filterSubscribedEvents\<close> is the first argument; the optional \<^verbatim>\<open>action\<close>
  is the user's callback, and calling it with a batch is the action it yields.\<close>

definition actOnSubscribedEvents ::
  "('e list \<Rightarrow> 'e list \<times> log_entry list) \<Rightarrow> 'e list \<Rightarrow> ('e list \<Rightarrow> action) option
     \<Rightarrow> action list \<times> log_entry list" where
  "actOnSubscribedEvents filterSubscribed events action =
     (case action of
        None \<Rightarrow> ([], [])
      | Some act \<Rightarrow>
          let (subscribedEvents, logs) = filterSubscribed events
          in ([act subscribedEvents], logs))"

definition callback :: "bool \<Rightarrow> ('e list \<Rightarrow> action) \<Rightarrow> ('e list \<Rightarrow> action) option" where
  "callback defined act = (if defined then Some act else None)"

text \<open>\<^verbatim>\<open>WSSubscriptionManager.setupHandlers\<close>: the five event handlers given to
  the sockets, each as the function from the batch it is called with to what reaches
  the user; \<open>userHandlers\<close> says which callbacks the user supplied.\<close>

definition setupHandlers_onBook ::
  "WebSocketHandlers \<Rightarrow> WebSocketGroup list \<Rightarrow> PolymarketWSEvent list \<Rightarrow> action list \<times> log_entry list" where
  "setupHandlers_onBook userHandlers groups events =
     actOnSubscribedEvents (filterSubscribedEvents asset_id groups) events
       (callback (onBook userHandlers) OnBook)"

definition setupHandlers_onLastTradePrice ::
  "WebSocketHandlers \<Rightarrow> WebSocketGroup list \<Rightarrow> PolymarketWSEvent list \<Rightarrow> action list \<times> log_entry list" where
  "setupHandlers_onLastTradePrice userHandlers groups events =
     actOnSubscribedEvents (filterSubscribedEvents asset_id groups) events
       (callback (onLastTradePrice userHandlers) OnLastTradePrice)"

definition setupHandlers_onTickSizeChange ::
  "WebSocketHandlers \<Rightarrow> WebSocketGroup list \<Rightarrow> PolymarketWSEvent list \<Rightarrow> action list \<times> log_entry list" where
  "setupHandlers_onTickSizeChange userHandlers groups events =
     actOnSubscribedEvents (filterSubscribedEvents asset_id groups) events
       (callback (onTickSizeChange userHandlers) OnTickSizeChange)"

definition setupHandlers_onPriceChange ::
  "WebSocketHandlers \<Rightarrow> WebSocketGroup list \<Rightarrow> PolymarketWSEvent list \<Rightarrow> action list \<times> log_entry list" where
  "setupHandlers_onPriceChange userHandlers groups events =
     actOnSubscribedEvents (filterSubscribedEvents asset_id groups) events
       (callback (onPriceChange userHandlers) OnPriceChange)"

definition setupHandlers_onPolymarketPriceUpdate ::
  "WebSocketHandlers \<Rightarrow> WebSocketGroup list \<Rightarrow> PolymarketPriceUpdateEvent list
     \<Rightarrow> action list \<times> log_entry list" where
  "setupHandlers_onPolymarketPriceUpdate userHandlers groups events =
     actOnSubscribedEvents (filterSubscribedEvents pu_asset_id groups) events
       (callback (onPolymarketPriceUpdate userHandlers) OnPolymarketPriceUpdate)"

text \<open>\<^verbatim>\<open>UserWSSubscriptionManager.setupHandlers\<close>.\<close>

definition setupHandlers_onOrder ::
  "UserWebSocketHandlers \<Rightarrow> UserWebSocketGroup list \<Rightarrow> PolymarketUserWSEvent list
     \<Rightarrow> action list \<times> log_entry list" where
  "setupHandlers_onOrder userHandlers groups events =
     actOnSubscribedEvents (filterSubscribedEvents_user groups) events
       (callback (onOrder userHandlers) OnOrder)"

definition setupHandlers_onTrade ::
  "UserWebSocketHandlers \<Rightarrow> UserWebSocketGroup list \<Rightarrow> PolymarketUserWSEvent list
     \<Rightarrow> action list \<times> log_entry list" where
  "setupHandlers_onTrade userHandlers groups events =
     actOnSubscribedEvents (filterSubscribedEvents_user groups) events
       (callback (onTrade userHandlers) OnTrade)"

subsection \<open>Construction\<close>

text \<open>The numeric options of a manager; a JavaScript number is an integer here, and
  \<open>None\<close> is an omitted option. The user options extend them with the credentials.\<close>

record SubscriptionManagerOptions =
  reconnectAndCleanupIntervalMs :: "int option"
  maxMarketsPerWS :: "int option"

record UserSubscriptionManagerOptions = SubscriptionManagerOptions +
  options_auth :: ApiCredentials

record SubscriptionManager =
  this_reconnectAndCleanupIntervalMs :: int
  this_maxMarketsPerWS :: int

text \<open>The constants of \<^verbatim>\<open>BaseSubscriptionManager\<close>.\<close>

definition DEFAULT_RECONNECT_AND_CLEANUP_INTERVAL_MS :: int where
  "DEFAULT_RECONNECT_AND_CLEANUP_INTERVAL_MS = 10000"

definition DEFAULT_MAX_MARKETS_PER_WS :: int where
  "DEFAULT_MAX_MARKETS_PER_WS = 100"

definition Number_MAX_SAFE_INTEGER :: int where
  "Number_MAX_SAFE_INTEGER = 2 ^ 53 - 1"

text \<open>The constant of the same name at the top of the user manager's file, under the
  comment that Polymarket removed the limit of 100. Nothing in that file reads it.\<close>

definition UserWSSubscriptionManager_DEFAULT_MAX_MARKETS_PER_WS :: int where
  "UserWSSubscriptionManager_DEFAULT_MAX_MARKETS_PER_WS = Number_MAX_SAFE_INTEGER"

text \<open>\<^verbatim>\<open>a || b\<close> on optional numbers: \<^verbatim>\<open>undefined\<close> and 0 are falsy.\<close>

definition js_or :: "int option \<Rightarrow> int option \<Rightarrow> int option" where
  "js_or a b = (case a of None \<Rightarrow> b | Some n \<Rightarrow> if n \<noteq> 0 then Some n else b)"

definition js_or_number :: "int option \<Rightarrow> int \<Rightarrow> int" where
  "js_or_number a d = (case a of None \<Rightarrow> d | Some n \<Rightarrow> if n \<noteq> 0 then n else d)"

definition no_options :: SubscriptionManagerOptions where
  "no_options = \<lparr> reconnectAndCleanupIntervalMs = None, maxMarketsPerWS = None \<rparr>"

text \<open>The constructor of \<^verbatim>\<open>BaseSubscriptionManager\<close>, for the two numeric fields;
  the third parameter defaults to \<^verbatim>\<open>{}\<close>.\<close>

definition BaseSubscriptionManager ::
  "'a SubscriptionManagerOptions_scheme \<Rightarrow> SubscriptionManagerOptions \<Rightarrow> SubscriptionManager" where
  "BaseSubscriptionManager options defaultOptions =
     \<lparr> this_reconnectAndCleanupIntervalMs =
         js_or_number (js_or (reconnectAndCleanupIntervalMs options)
                             (reconnectAndCleanupIntervalMs defaultOptions))
           DEFAULT_RECONNECT_AND_CLEANUP_INTERVAL_MS,
       this_maxMarketsPerWS =
         js_or_number (js_or (maxMarketsPerWS options) (maxMarketsPerWS defaultOptions))
           DEFAULT_MAX_MARKETS_PER_WS \<rparr>"

text \<open>Modelled from the spec: \<^verbatim>\<open>MarketWSSubscriptionManager\<close>, the market manager
  that the index exports, is not among the sources. Section 6 of the specification gives
  its default of \<^verbatim>\<open>maxMarketsPerWS\<close> as effectively unbounded; the model is the
  base constructor called with \<^verbatim>\<open>defaultOptions\<close> whose
  \<^verbatim>\<open>maxMarketsPerWS\<close> is \<^verbatim>\<open>Number.MAX_SAFE_INTEGER\<close>.\<close>

definition MarketWSSubscriptionManager ::
  "SubscriptionManagerOptions option \<Rightarrow> SubscriptionManager" where
  "MarketWSSubscriptionManager options =
     BaseSubscriptionManager (case options of None \<Rightarrow> no_options | Some opts \<Rightarrow> opts)
       \<lparr> reconnectAndCleanupIntervalMs = None,
         maxMarketsPerWS = Some Number_MAX_SAFE_INTEGER \<rparr>"

text \<open>\<^verbatim>\<open>super(userHandlers, options || {})\<close> in \<^verbatim>\<open>WSSubscriptionManager\<close>,
  the market manager among the sources, which the index does not export, and
  \<^verbatim>\<open>super(userHandlers, options)\<close> in the user manager: neither passes
  \<^verbatim>\<open>defaultOptions\<close>.\<close>

definition WSSubscriptionManager :: "SubscriptionManagerOptions option \<Rightarrow> SubscriptionManager" where
  "WSSubscriptionManager options =
     BaseSubscriptionManager (case options of None \<Rightarrow> no_options | Some opts \<Rightarrow> opts) no_options"

definition UserWSSubscriptionManager :: "UserSubscriptionManagerOptions \<Rightarrow> SubscriptionManager" where
  "UserWSSubscriptionManager options = BaseSubscriptionManager options no_options"

section \<open>Notions used in the statements\<close>

text \<open>An event that the market socket drops before bucketing: its \<open>asset_id\<close> is
  missing or empty, or is not a key of the group.\<close>

definition dropped :: "MarketGroupSocket \<Rightarrow> PolymarketWSEvent \<Rightarrow> bool" where
  "dropped s e =
     (case asset_id e of None \<Rightarrow> True | Some a \<Rightarrow> a = [] \<or> a \<notin> set (assetIds (group s)))"

definition unknownKind :: "PolymarketWSEvent \<Rightarrow> bool" where
  "unknownKind e =
     (\<not> isBookEvent e \<and> \<not> isLastTradePriceEvent e \<and> \<not> isTickSizeChangeEvent e
      \<and> \<not> isPriceChangeEvent e)"

fun is_error :: "action \<Rightarrow> bool" where
  "is_error (OnError err) = True"
| "is_error a = False"

fun is_cache_op :: "action \<Rightarrow> bool" where
  "is_cache_op (CacheReplaceBook e) = True"
| "is_cache_op (CacheUpsertPriceChange e) = True"
| "is_cache_op a = False"

fun is_price_update :: "action \<Rightarrow> bool" where
  "is_price_update (OnPolymarketPriceUpdate batch) = True"
| "is_price_update a = False"

fun one_update_per_call :: "action \<Rightarrow> bool" where
  "one_update_per_call (OnPolymarketPriceUpdate batch) = (length batch = 1)"
| "one_update_per_call a = True"

text \<open>The spread of a book compared with a threshold; a book with an empty side has
  no spread, so neither comparison holds of it.\<close>

definition spread_below :: "rat \<Rightarrow> BookEntry \<Rightarrow> bool" where
  "spread_below t be = (case book_spread be of None \<Rightarrow> False | Some sp \<Rightarrow> sp < t)"

definition spread_at_least :: "rat \<Rightarrow> BookEntry \<Rightarrow> bool" where
  "spread_at_least t be = (case book_spread be of None \<Rightarrow> False | Some sp \<Rightarrow> t \<le> sp)"

text \<open>The four arrays that \<^verbatim>\<open>handleMessage\<close> has filled when its loop ends, and
  the state of the cache and the trace of the frame at the moment
  \<^verbatim>\<open>handlePriceChangeEvents\<close> and \<^verbatim>\<open>handleLastTradeEvents\<close> are called.\<close>

definition frameBuckets :: "MarketGroupSocket \<Rightarrow> PolymarketWSEvent list \<Rightarrow> buckets" where
  "frameBuckets s parsedEvents =
     fst (bucketEvents (handlers s) (assetIds (group s))
            (filter (\<lambda>e. 0 < lodash_size (asset_id e)) parsedEvents))"

definition cacheAtPriceChanges ::
  "OrderBookCacheOps \<Rightarrow> MarketGroupSocket \<Rightarrow> PolymarketWSEvent list \<Rightarrow> OrderBookCache" where
  "cacheAtPriceChanges cache s parsedEvents =
     fst (handleBookEvents cache (handlers s) (bookEvents (frameBuckets s parsedEvents))
            (bookCache s))"

definition traceBeforePriceChanges ::
  "OrderBookCacheOps \<Rightarrow> MarketGroupSocket \<Rightarrow> PolymarketWSEvent list \<Rightarrow> action list" where
  "traceBeforePriceChanges cache s parsedEvents =
     snd (bucketEvents (handlers s) (assetIds (group s))
            (filter (\<lambda>e. 0 < lodash_size (asset_id e)) parsedEvents))
     @ snd (handleBookEvents cache (handlers s) (bookEvents (frameBuckets s parsedEvents))
              (bookCache s))
     @ handleTickEvents (handlers s) (tickEvents (frameBuckets s parsedEvents))"

definition cacheAtLastTrades ::
  "OrderBookCacheOps \<Rightarrow> MarketGroupSocket \<Rightarrow> PolymarketWSEvent list \<Rightarrow> OrderBookCache" where
  "cacheAtLastTrades cache s parsedEvents =
     fst (handlePriceChangeEvents cache (handlers s)
            (priceChangeEvents (frameBuckets s parsedEvents))
            (cacheAtPriceChanges cache s parsedEvents))"


text \<open>The market key of a user event, \<^verbatim>\<open>event.market || ''\<close>.\<close>

definition market_key :: "PolymarketUserWSEvent \<Rightarrow> string" where
  "market_key e = (case market e of None \<Rightarrow> [] | Some m \<Rightarrow> m)"

section \<open>Concrete inputs\<close>

definition all_handlers :: WebSocketHandlers where
  "all_handlers =
     \<lparr> onBook = True, onTickSizeChange = True, onPriceChange = True, onLastTradePrice = True,
       onPolymarketPriceUpdate = True, onError = True, onWSOpen = True, onWSClose = True \<rparr>"

definition all_user_handlers :: UserWebSocketHandlers where
  "all_user_handlers =
     \<lparr> onOrder = True, onTrade = True, u_onError = True, u_onWSOpen = True, u_onWSClose = True \<rparr>"

definition open_socket :: WebSocket where
  "open_socket = \<lparr> send_throws = False \<rparr>"

definition group_a :: "WebSocket option \<Rightarrow> WebSocketGroup" where
  "group_a ws = \<lparr> groupId = ''g1'', status = PENDING, wsClient = ws, assetIds = [''a''] \<rparr>"

definition socket_a :: "WebSocket option \<Rightarrow> OrderBookCache \<Rightarrow> MarketGroupSocket" where
  "socket_a ws c =
     \<lparr> group = group_a ws, bookCache = c, handlers = all_handlers, initialDump = True \<rparr>"

definition credentials :: ApiCredentials where
  "credentials = \<lparr> apiKey = ''k'', secret = ''s'', passphrase = ''p'' \<rparr>"

definition user_group_m :: "WebSocket option \<Rightarrow> UserWebSocketGroup" where
  "user_group_m ws =
     \<lparr> groupId = ''u1'', status = PENDING, wsClient = ws, marketIds = [''m''],
       auth = credentials, subscribeToAll = False \<rparr>"

definition user_socket_m :: "WebSocket option \<Rightarrow> UserGroupSocket" where
  "user_socket_m ws = \<lparr> u_group = user_group_m ws, u_handlers = all_user_handlers \<rparr>"

definition market_event :: "string \<Rightarrow> string \<Rightarrow> PolymarketWSEvent" where
  "market_event kind asset =
     \<lparr> event_type = Some kind, asset_id = Some asset, timestamp = ''1700000000000'',
       bids = [], asks = [], hash = ''h'', changes = [], price = [] \<rparr>"

definition user_event :: "string \<Rightarrow> string \<Rightarrow> PolymarketUserWSEvent" where
  "user_event kind m = \<lparr> u_event_type = Some kind, market = Some m, u_payload = [] \<rparr>"

definition level :: "rat \<Rightarrow> rat \<Rightarrow> PriceLevel" where
  "level p sz = \<lparr> level_price = p, level_size = sz \<rparr>"

text \<open>A cached book of asset \<open>a\<close> with one bid and one ask, and a stored price.\<close>

definition book_a :: "rat \<Rightarrow> rat \<Rightarrow> string \<Rightarrow> BookEntry" where
  "book_a bid ask stored =
     \<lparr> be_bids = [level bid 10], be_asks = [level ask 8], be_price = stored,
       be_midpoint = [], be_spread = [], be_hash = ''h'', be_timestamp = ''1700000000000'' \<rparr>"

definition cache_a :: "rat \<Rightarrow> rat \<Rightarrow> string \<Rightarrow> OrderBookCache" where
  "cache_a bid ask stored = [''a'' \<mapsto> book_a bid ask stored]"

text \<open>A value for the parameter \<open>normalizePrice\<close> in the concrete runs below. On a
  price as the feed sends it (digits, a point, one to four digits) it returns what
  \<^verbatim>\<open>parseFloat(s).toString()\<close> returns: the trailing zeros of the fraction go, and
  so does a point left at the end. On other strings it is not that built-in, and no
  statement below depends on it there.\<close>

definition strip_trailing_zeros :: "string \<Rightarrow> string" where
  "strip_trailing_zeros p =
     (if CHR ''.'' \<in> set p then
        let t = rev (dropWhile (\<lambda>ch. ch = CHR ''0'') (rev p))
        in if t \<noteq> [] \<and> last t = CHR ''.'' then butlast t else t
      else p)"

text \<open>A frame of four events that the socket of group \<open>a\<close> drops: two of another
  asset, one without \<open>asset_id\<close> and one with an empty one.\<close>

definition stale_frame :: "PolymarketWSEvent parsed" where
  "stale_frame =
     Array [market_event ''book'' ''b'', market_event ''nonsense'' ''b'',
            (market_event ''price_change'' ''a'')\<lparr> asset_id := None \<rparr>,
            (market_event ''last_trade_price'' ''a'')\<lparr> asset_id := Some [] \<rparr>]"

text \<open>Further events of asset \<open>a\<close>, frames and registries.\<close>

definition trade_event :: "string \<Rightarrow> PolymarketWSEvent" where
  "trade_event p = (market_event ''last_trade_price'' ''a'')\<lparr> price := p \<rparr>"

definition two_trades_frame :: "PolymarketWSEvent parsed" where
  "two_trades_frame = Array [trade_event ''0.7000'', trade_event ''0.8'']"


definition book_event_a :: PolymarketWSEvent where
  "book_event_a =
     (market_event ''book'' ''a'')\<lparr> bids := [level (3 / 5) 10], asks := [level (31 / 50) 8] \<rparr>"

definition book_apply_event :: PolymarketWSEvent where
  "book_apply_event =
     (market_event ''price_change'' ''a'')
       \<lparr> changes := [\<lparr> change_price = 3 / 5, change_size = 0, change_side = BUY \<rparr>,
                     \<lparr> change_price = 59 / 100, change_size = 5, change_side = BUY \<rparr>] \<rparr>"

definition one_sided_cache :: OrderBookCache where
  "one_sided_cache = [''a'' \<mapsto> (book_a (3 / 5) (31 / 50) [])\<lparr> be_asks := [] \<rparr>]"

definition tick_event_a :: PolymarketWSEvent where
  "tick_event_a = market_event ''tick_size_change'' ''a''"

definition no_change_event :: PolymarketWSEvent where
  "no_change_event = market_event ''price_change'' ''a''"

definition mixed_frame :: "PolymarketWSEvent list" where
  "mixed_frame = [trade_event ''0.61'', book_apply_event, tick_event_a, book_event_a]"

definition group_ab :: WebSocketGroup where
  "group_ab = \<lparr> groupId = ''g2'', status = ALIVE, wsClient = None, assetIds = [''a'', ''b''] \<rparr>"

definition pinned_group :: UserWebSocketGroup where
  "pinned_group =
     \<lparr> groupId = ''u2'', status = ALIVE, wsClient = None, marketIds = [],
       auth = credentials, subscribeToAll = True \<rparr>"

text \<open>Two caches that fail where the cache of the specification cannot:
  \<^verbatim>\<open>midpoint\<close> throws although \<^verbatim>\<open>spreadOver\<close> returned, and
  \<^verbatim>\<open>getBookEntry\<close> returns null although the other calls found the book.\<close>

definition cache_failing_midpoint :: OrderBookCacheOps where
  "cache_failing_midpoint = specOrderBookCache\<lparr> midpoint := (\<lambda>a c. Inl IncompleteBook) \<rparr>"

definition cache_losing_entries :: OrderBookCacheOps where
  "cache_losing_entries = specOrderBookCache\<lparr> getBookEntry := (\<lambda>a c. None) \<rparr>"

section \<open>Frames that are not JSON\<close>

text \<open>C9: for a frame that \<^verbatim>\<open>JSON.parse\<close> rejects, \<^verbatim>\<open>handleMessage\<close> of
  either variant returns the socket as it was (same group status, same socket handle,
  same book cache) and its whole trace is the one call of \<^verbatim>\<open>onError\<close>, made when
  that handler is defined: no event handler is called, nothing is sent or closed.\<close>

theorem not_json_frame:
  assumes "parse data = None" and "parse_user data = None"
  shows "handleMessage parse normalizePrice cache s data
           = (s, if onError (handlers s) then [OnError (NotJSON data)] else [])
         \<and> handleMessage_user parse_user us data
           = (us, if u_onError (u_handlers us) then [OnError (NotJSON data)] else [])"
  using assms by (simp add: handleMessage_def handleMessage_user_def invoke_def)

theorem not_json_frame_witness:
  "handleMessage (\<lambda>d. None) strip_trailing_zeros specOrderBookCache
       (socket_a (Some open_socket) (cache_a (3 / 5) (31 / 50) [])) ''PONG''
     = (socket_a (Some open_socket) (cache_a (3 / 5) (31 / 50) []), [OnError (NotJSON ''PONG'')])
   \<and> handleMessage_user (\<lambda>d. None) (user_socket_m (Some open_socket)) ''PONG''
     = (user_socket_m (Some open_socket), [OnError (NotJSON ''PONG'')])"
  using not_json_frame [of "\<lambda>d. None" "''PONG''" "\<lambda>d. None" strip_trailing_zeros
      specOrderBookCache
      "socket_a (Some open_socket) (cache_a (3 / 5) (31 / 50) [])" "user_socket_m (Some open_socket)"]
  by (simp add: socket_a_def all_handlers_def user_socket_m_def all_user_handlers_def)

section \<open>The default of \<^verbatim>\<open>maxMarketsPerWS\<close>\<close>

text \<open>C8: when \<^verbatim>\<open>maxMarketsPerWS\<close> is omitted at construction (no options at all,
  or options without the field), the limit of the market manager is
  \<^verbatim>\<open>Number.MAX_SAFE_INTEGER\<close>, which no key set reaches, and the limit of the user
  manager is 100, the default of the base class.\<close>

theorem default_maxMarketsPerWS:
  assumes "maxMarketsPerWS opts = None" and "maxMarketsPerWS user_opts = None"
  shows "this_maxMarketsPerWS (MarketWSSubscriptionManager None) = 9007199254740991
       \<and> this_maxMarketsPerWS (MarketWSSubscriptionManager (Some opts)) = 9007199254740991
       \<and> this_maxMarketsPerWS (UserWSSubscriptionManager user_opts) = 100"
  using assms
  by (simp add: MarketWSSubscriptionManager_def UserWSSubscriptionManager_def
      BaseSubscriptionManager_def no_options_def js_or_def js_or_number_def
      DEFAULT_MAX_MARKETS_PER_WS_def Number_MAX_SAFE_INTEGER_def)

theorem default_maxMarketsPerWS_witness:
  "this_maxMarketsPerWS (MarketWSSubscriptionManager None) = 9007199254740991
   \<and> this_maxMarketsPerWS (MarketWSSubscriptionManager
        (Some \<lparr> reconnectAndCleanupIntervalMs = Some 5000, maxMarketsPerWS = None \<rparr>))
       = 9007199254740991
   \<and> this_maxMarketsPerWS (UserWSSubscriptionManager
        \<lparr> reconnectAndCleanupIntervalMs = None, maxMarketsPerWS = None,
          options_auth = credentials \<rparr>) = 100"
  using default_maxMarketsPerWS
    [of "\<lparr> reconnectAndCleanupIntervalMs = Some 5000, maxMarketsPerWS = None \<rparr>"
        "\<lparr> reconnectAndCleanupIntervalMs = None, maxMarketsPerWS = None,
           options_auth = credentials \<rparr>"]
  by simp

text \<open>The class \<^verbatim>\<open>WSSubscriptionManager\<close> of the sources passes no
  \<^verbatim>\<open>defaultOptions\<close>: built without the option, its limit is the 100 of the base
  class, below the constant that the user manager's file declares and never reads.\<close>

lemma WSSubscriptionManager_default:
  "this_maxMarketsPerWS (WSSubscriptionManager None) = 100
   \<and> this_maxMarketsPerWS (WSSubscriptionManager None)
       < UserWSSubscriptionManager_DEFAULT_MAX_MARKETS_PER_WS"
  by (simp add: WSSubscriptionManager_def BaseSubscriptionManager_def no_options_def
      js_or_def js_or_number_def DEFAULT_MAX_MARKETS_PER_WS_def
      UserWSSubscriptionManager_DEFAULT_MAX_MARKETS_PER_WS_def Number_MAX_SAFE_INTEGER_def)

section \<open>Opening a socket\<close>

text \<open>The user socket does what C6 says, step by step.\<close>

lemma handleOpen_user_cases:
  "handleOpen_user s =
     (if shouldCleanup_user s then (setGroupStatus_user CLEANUP s, [])
      else if wsClient (u_group s) = None then (setGroupStatus_user DEAD s, [])
      else if send_throws (the (wsClient (u_group s))) then (setGroupStatus_user DEAD s, [])
      else (setGroupStatus_user ALIVE s,
            WsSend (createSubscriptionMessage_user s)
            # invoke (u_onWSOpen (u_handlers s))
                (OnWSOpen (groupId (u_group s)) (marketIds (u_group s)))
            @ [StartPingInterval]))"
  by (auto simp add: handleOpen_user_def setGroupStatus_user_def Let_def split: option.splits)

text \<open>So does the market socket as long as the group still holds its handle.\<close>

lemma handleOpen_with_socket:
  assumes "getWebSocketClient s = Some ws"
  shows "handleOpen s =
     (if shouldCleanup s then (setGroupStatus CLEANUP s, [])
      else if send_throws ws then (setGroupStatus DEAD s, [])
      else (setGroupStatus ALIVE s,
            WsSend (createSubscriptionMessage s)
            # invoke (onWSOpen (handlers s)) (OnWSOpen (groupId (group s)) (assetIds (group s)))
            @ [StartPingInterval]))"
  using assms
  by (auto simp add: handleOpen_def setGroupStatus_def getWebSocketClient_def
      createSubscriptionMessage_def Let_def split: option.splits)

text \<open>Without a handle the market socket skips the send and goes on as after a
  successful one.\<close>

lemma handleOpen_without_socket:
  assumes "\<not> shouldCleanup s" and "getWebSocketClient s = None"
  shows "handleOpen s =
     (setGroupStatus ALIVE s,
      invoke (onWSOpen (handlers s)) (OnWSOpen (groupId (group s)) (assetIds (group s)))
      @ [StartPingInterval])"
  using assms
  by (auto simp add: handleOpen_def setGroupStatus_def getWebSocketClient_def Let_def
      split: option.splits)

text \<open>C6: on open, a group whose socket handle has disappeared is to be set DEAD. The
  market socket at a group with the key \<open>a\<close> and no handle: the group ends ALIVE,
  \<^verbatim>\<open>onWSOpen\<close> is called and the heartbeat is started, and nothing has been sent.\<close>

theorem market_open_without_socket:
  "handleOpen (socket_a None Map.empty)
     = (setGroupStatus ALIVE (socket_a None Map.empty), [OnWSOpen ''g1'' [''a''], StartPingInterval])
   \<and> status (group (fst (handleOpen (socket_a None Map.empty)))) = ALIVE
   \<and> status (u_group (fst (handleOpen_user (user_socket_m None)))) = DEAD"
  by (simp add: handleOpen_def handleOpen_user_def shouldCleanup_def shouldCleanup_user_def
      setGroupStatus_def setGroupStatus_user_def getWebSocketClient_def socket_a_def
      group_a_def user_socket_m_def user_group_m_def all_handlers_def invoke_def)

section \<open>Events dropped before bucketing\<close>

lemma bucketEvents_has:
  "bucketEvents hs keys (filter (\<lambda>e. has keys (asset_id e)) evs) = bucketEvents hs keys evs"
  by (induction evs) (simp_all add: Let_def split: prod.splits)

lemma not_dropped_iff:
  "(\<not> dropped s e) = (0 < lodash_size (asset_id e) \<and> has (assetIds (group s)) (asset_id e))"
  by (auto simp add: dropped_def lodash_size_def has_def split: option.splits)

lemma handleEvents_nil: "handleEvents np cache s [] = (s, [])"
  by (simp add: handleEvents_def handleBookEvents_def handleTickEvents_def
      handlePriceChangeEvents_def handleLastTradeEvents_def no_buckets_def)

lemma handleEvents_buckets:
  "bucketEvents (handlers s) (assetIds (group s)) (filter (\<lambda>e. 0 < lodash_size (asset_id e)) evs)
   = bucketEvents (handlers s) (assetIds (group s)) (filter (\<lambda>e. 0 < lodash_size (asset_id e)) evs')
   \<Longrightarrow> handleEvents np cache s evs = handleEvents np cache s evs'"
  by (simp add: handleEvents_def)

lemma handleEvents_survivors:
  "handleEvents np cache s (filter (\<lambda>e. \<not> dropped s e) evs) = handleEvents np cache s evs"
proof (rule handleEvents_buckets)
  let ?sz = "\<lambda>e. 0 < lodash_size (asset_id e)"
  let ?has = "\<lambda>e. has (assetIds (group s)) (asset_id e)"
  have "filter ?sz (filter (\<lambda>e. \<not> dropped s e) evs) = filter ?has (filter ?sz evs)"
    by (induction evs) (auto simp add: not_dropped_iff)
  then show "bucketEvents (handlers s) (assetIds (group s))
               (filter ?sz (filter (\<lambda>e. \<not> dropped s e) evs))
             = bucketEvents (handlers s) (assetIds (group s)) (filter ?sz evs)"
    by (simp only: bucketEvents_has)
qed

text \<open>C3: a frame is handled exactly as the frame without its dropped events (those
  whose \<open>asset_id\<close> is missing, empty or not a key of the group): they reach no
  handler, no cache operation and no derived price. A frame of dropped events only
  leaves the socket as it was and calls nothing.\<close>

theorem dropped_events:
  assumes "parse data = Some parsedData"
  shows "handleMessage parse normalizePrice cache s data
           = handleEvents normalizePrice cache s (filter (\<lambda>e. \<not> dropped s e) (toArray parsedData))
         \<and> ((\<forall>e \<in> set (toArray parsedData). dropped s e)
              \<longrightarrow> handleMessage parse normalizePrice cache s data = (s, []))"
proof -
  have eq: "handleMessage parse normalizePrice cache s data
           = handleEvents normalizePrice cache s (filter (\<lambda>e. \<not> dropped s e) (toArray parsedData))"
    using assms by (simp add: handleMessage_def handleEvents_survivors)
  moreover have "handleMessage parse normalizePrice cache s data = (s, [])"
    if "\<forall>e \<in> set (toArray parsedData). dropped s e"
  proof -
    from that have "filter (\<lambda>e. \<not> dropped s e) (toArray parsedData) = []"
      by (simp add: filter_empty_conv)
    with eq show ?thesis by (simp add: handleEvents_nil)
  qed
  ultimately show ?thesis by blast
qed

theorem dropped_events_witness:
  "handleMessage (\<lambda>d. Some stale_frame) strip_trailing_zeros specOrderBookCache
       (socket_a (Some open_socket) (cache_a (3 / 5) (31 / 50) [])) ''frame''
     = (socket_a (Some open_socket) (cache_a (3 / 5) (31 / 50) []), [])"
  using dropped_events [of "\<lambda>d. Some stale_frame" "''frame''" stale_frame strip_trailing_zeros
      specOrderBookCache "socket_a (Some open_socket) (cache_a (3 / 5) (31 / 50) [])"]
  by (simp add: stale_frame_def toArray_def dropped_def market_event_def socket_a_def
      group_a_def handleEvents_nil)

section \<open>Traces of the market handlers\<close>

text \<open>What each handler contributes to the trace of a frame.\<close>

lemma replaceBooks_trace: "snd (replaceBooks cache evs c) = map CacheReplaceBook evs"
  by (induction evs arbitrary: c) (simp_all add: split_beta)

lemma bucketEvents_errors: "list_all is_error (snd (bucketEvents hs keys evs))"
  by (induction evs) (simp_all add: split_beta Let_def invoke_def)

lemma priceChangeEvent_trace:
  "\<exists>rest. snd (priceChangeEvent cache hs e c) = CacheUpsertPriceChange e # rest
     \<and> (rest = [] \<or> (\<exists>pu. rest = [OnPolymarketPriceUpdate [pu]]))"
  by (auto simp add: priceChangeEvent_def storeAndEmit_def invoke_def
      split: sum.splits option.splits prod.splits)

lemma lastTradeEvent_trace:
  "snd (lastTradeEvent np cache hs e c) = []
   \<or> (\<exists>pu. snd (lastTradeEvent np cache hs e c) = [OnPolymarketPriceUpdate [pu]])"
  by (auto simp add: lastTradeEvent_def storeAndEmit_def invoke_def Let_def
      split: sum.splits option.splits prod.splits)

lemma priceChangeLoop_upserts:
  "filter is_cache_op (snd (priceChangeLoop cache hs evs c)) = map CacheUpsertPriceChange evs"
proof (induction evs arbitrary: c)
  case Nil
  show ?case by simp
next
  case (Cons e evs)
  obtain rest where "snd (priceChangeEvent cache hs e c) = CacheUpsertPriceChange e # rest"
    and "rest = [] \<or> (\<exists>pu. rest = [OnPolymarketPriceUpdate [pu]])"
    using priceChangeEvent_trace by blast
  then have "filter is_cache_op (snd (priceChangeEvent cache hs e c)) = [CacheUpsertPriceChange e]"
    by auto
  with Cons.IH show ?case by (simp add: split_beta)
qed

lemma priceChangeLoop_actions:
  "list_all (\<lambda>a. (is_cache_op a \<or> is_price_update a) \<and> one_update_per_call a)
     (snd (priceChangeLoop cache hs evs c))"
proof (induction evs arbitrary: c)
  case Nil
  show ?case by simp
next
  case (Cons e evs)
  obtain rest where "snd (priceChangeEvent cache hs e c) = CacheUpsertPriceChange e # rest"
    and "rest = [] \<or> (\<exists>pu. rest = [OnPolymarketPriceUpdate [pu]])"
    using priceChangeEvent_trace by blast
  then have "list_all (\<lambda>a. (is_cache_op a \<or> is_price_update a) \<and> one_update_per_call a)
     (snd (priceChangeEvent cache hs e c))"
    by auto
  with Cons.IH show ?case by (simp add: split_beta)
qed

lemma lastTradeLoop_actions:
  "list_all (\<lambda>a. is_price_update a \<and> one_update_per_call a)
     (snd (lastTradeLoop np cache hs evs c))"
proof (induction evs arbitrary: c)
  case Nil
  show ?case by simp
next
  case (Cons e evs)
  have "list_all (\<lambda>a. is_price_update a \<and> one_update_per_call a)
          (snd (lastTradeEvent np cache hs e c))"
    using lastTradeEvent_trace [of np cache hs e c] by auto
  with Cons.IH show ?case by (simp add: split_beta)
qed



lemma handleBookEvents_trace:
  "snd (handleBookEvents cache hs evs c)
   = (if evs = [] then [] else map CacheReplaceBook evs @ invoke (onBook hs) (OnBook evs))"
  by (simp add: handleBookEvents_def split_beta replaceBooks_trace)

lemma handlePriceChangeEvents_trace:
  "snd (handlePriceChangeEvents cache hs evs c)
   = (if evs = [] then []
      else invoke (onPriceChange hs) (OnPriceChange evs) @ snd (priceChangeLoop cache hs evs c))"
  by (simp add: handlePriceChangeEvents_def split_beta)


lemma handleLastTradeEvents_trace:
  "snd (handleLastTradeEvents np cache hs evs c)
   = (if evs = [] then []
      else invoke (onLastTradePrice hs) (OnLastTradePrice evs)
           @ snd (lastTradeLoop np cache hs evs c))"
  by (simp add: handleLastTradeEvents_def split_beta)

lemma handleLastTradeEvents_state:
  "fst (handleLastTradeEvents np cache hs evs c) = fst (lastTradeLoop np cache hs evs c)"
  by (simp add: handleLastTradeEvents_def split_beta)

lemma handleEvents_trace:
  "snd (handleEvents np cache s evs) =
     traceBeforePriceChanges cache s evs
     @ snd (handlePriceChangeEvents cache (handlers s) (priceChangeEvents (frameBuckets s evs))
              (cacheAtPriceChanges cache s evs))
     @ snd (handleLastTradeEvents np cache (handlers s) (lastTradeEvents (frameBuckets s evs))
              (cacheAtLastTrades cache s evs))"
  by (simp add: handleEvents_def frameBuckets_def traceBeforePriceChanges_def
      cacheAtPriceChanges_def cacheAtLastTrades_def split_beta Let_def)

lemma handleEvents_state:
  "fst (handleEvents np cache s evs) =
     s\<lparr> bookCache :=
         fst (handleLastTradeEvents np cache (handlers s) (lastTradeEvents (frameBuckets s evs))
                (cacheAtLastTrades cache s evs)) \<rparr>"
  by (simp add: handleEvents_def frameBuckets_def cacheAtPriceChanges_def
      cacheAtLastTrades_def split_beta Let_def)

text \<open>Facts for evaluating the model on concrete inputs.\<close>

lemmas eval_defs =
  handleMessage_def handleEvents_def toArray_def lodash_size_def has_def
  isBookEvent_def isLastTradePriceEvent_def isTickSizeChangeEvent_def isPriceChangeEvent_def
  handleBookEvents_def handleTickEvents_def handlePriceChangeEvents_def handleLastTradeEvents_def
  lastTradeEvent_def priceChangeEvent_def storeAndEmit_def invoke_def
  specOrderBookCache_def OrderBookCache_spreadOver_def OrderBookCache_midpoint_def
  OrderBookCache_getBookEntry_def OrderBookCache_upsertPriceChange_def
  OrderBookCache_replaceBook_def
  book_spread_def book_midpoint_def bestBid_def bestAsk_def asset_key_def no_buckets_def
  socket_a_def group_a_def all_handlers_def cache_a_def book_a_def level_def market_event_def

lemmas book_defs = apply_change_def upsert_level_def opt_string_def
  spread_below_def spread_at_least_def priceUpdateEvent_def


lemma decimal_string_examples:
  "decimal_string (121 / 200) = ''0.605''"
  "decimal_string (61 / 100) = ''0.61''"
  "decimal_string (1 / 50) = ''0.02''"
  "decimal_string (3 / 100) = ''0.03''"
  "decimal_string (3 / 25) = ''0.12''"
  by code_simp+

section \<open>One price update per call\<close>

lemma is_error_one: "is_error a \<Longrightarrow> one_update_per_call a"
  by (cases a) simp_all

lemma handleEvents_one_update: "list_all one_update_per_call (snd (handleEvents np cache s evs))"
proof -
  have 1: "list_all one_update_per_call (snd (bucketEvents hs keys es))" for hs keys es
    using bucketEvents_errors [of hs keys es] by (simp add: list_all_iff is_error_one)
  have 2: "list_all one_update_per_call (snd (handleBookEvents cache hs es c))" for hs es c
    by (auto simp add: handleBookEvents_trace invoke_def list_all_iff)
  have 3: "list_all one_update_per_call (handleTickEvents hs es)" for hs es
    by (simp add: handleTickEvents_def invoke_def)
  have 4: "list_all one_update_per_call (snd (handlePriceChangeEvents cache hs es c))" for hs es c
    using priceChangeLoop_actions [of cache hs es c]
    by (auto simp add: handlePriceChangeEvents_trace invoke_def list_all_iff)
  have 5: "list_all one_update_per_call (snd (handleLastTradeEvents np cache hs es c))" for hs es c
    using lastTradeLoop_actions [of np cache hs es c]
    by (auto simp add: handleLastTradeEvents_trace invoke_def list_all_iff)
  show ?thesis
    by (simp only: handleEvents_trace traceBeforePriceChanges_def list_all_append 1 2 3 4 5
        simp_thms)
qed

text \<open>C10: every call of \<^verbatim>\<open>onPolymarketPriceUpdate\<close> made while a frame is handled
  carries an array of exactly one event; updates derived from several events of one
  frame are delivered by separate calls.\<close>

theorem price_updates_one_per_call:
  assumes "OnPolymarketPriceUpdate batch
             \<in> set (snd (handleMessage parse normalizePrice cache s data))"
  shows "length batch = 1"
proof (cases "parse data")
  case None
  with assms show ?thesis
    by (simp add: handleMessage_def invoke_def split: if_splits)
next
  case (Some parsedData)
  with assms have "OnPolymarketPriceUpdate batch
      \<in> set (snd (handleEvents normalizePrice cache s (toArray parsedData)))"
    by (simp add: handleMessage_def)
  moreover have "list_all one_update_per_call
      (snd (handleEvents normalizePrice cache s (toArray parsedData)))"
    by (rule handleEvents_one_update)
  ultimately have "one_update_per_call (OnPolymarketPriceUpdate batch)"
    unfolding list_all_iff by blast
  then show ?thesis by simp
qed

text \<open>Two trades of one frame, at a spread of 0.12: two calls, one update each.\<close>

lemma two_trades_trace:
  "snd (handleMessage (\<lambda>d. Some two_trades_frame) strip_trailing_zeros specOrderBookCache
         (socket_a (Some open_socket) (cache_a (3 / 5) (18 / 25) [])) ''frame'')
   = [OnLastTradePrice [trade_event ''0.7000'', trade_event ''0.8''],
      OnPolymarketPriceUpdate
        [priceUpdateEvent (trade_event ''0.7000'')
           ((book_a (3 / 5) (18 / 25) [])\<lparr> be_spread := ''0.12'' \<rparr>) ''0.7''],
      OnPolymarketPriceUpdate
        [priceUpdateEvent (trade_event ''0.8'')
           ((book_a (3 / 5) (18 / 25) ''0.7'')\<lparr> be_spread := ''0.12'' \<rparr>) ''0.8'']]"
  by (simp add: eval_defs book_defs decimal_string_examples two_trades_frame_def trade_event_def
      strip_trailing_zeros_def Let_def)

theorem price_updates_one_per_call_witness:
  "OnPolymarketPriceUpdate
      [priceUpdateEvent (trade_event ''0.8'')
         ((book_a (3 / 5) (18 / 25) ''0.7'')\<lparr> be_spread := ''0.12'' \<rparr>) ''0.8'']
     \<in> set (snd (handleMessage (\<lambda>d. Some two_trades_frame) strip_trailing_zeros
                  specOrderBookCache
                  (socket_a (Some open_socket) (cache_a (3 / 5) (18 / 25) [])) ''frame''))
   \<and> length [priceUpdateEvent (trade_event ''0.8'')
               ((book_a (3 / 5) (18 / 25) ''0.7'')\<lparr> be_spread := ''0.12'' \<rparr>) ''0.8''] = 1"
  using price_updates_one_per_call
    [of "[priceUpdateEvent (trade_event ''0.8'')
            ((book_a (3 / 5) (18 / 25) ''0.7'')\<lparr> be_spread := ''0.12'' \<rparr>) ''0.8'']"
        "\<lambda>d. Some two_trades_frame" strip_trailing_zeros specOrderBookCache
        "socket_a (Some open_socket) (cache_a (3 / 5) (18 / 25) [])" "''frame''"]
  by (simp add: two_trades_trace)

section \<open>Order of processing within a frame\<close>

text \<open>The six places where the loops go on to the next event after a call of the cache
  has thrown or has found no entry, for any cache.\<close>

lemma priceChangeLoop_skip_upsert:
  "upsertPriceChange cache e c = Inl err \<Longrightarrow>
   priceChangeLoop cache hs (e # es) c
     = (fst (priceChangeLoop cache hs es c),
        CacheUpsertPriceChange e # snd (priceChangeLoop cache hs es c))"
  by (simp add: priceChangeEvent_def split_beta)

lemma priceChangeLoop_skip_spread:
  "upsertPriceChange cache e c = Inr c1 \<Longrightarrow>
   spreadOver cache (asset_key e) (1 / 10) c1 = Inl err \<Longrightarrow>
   priceChangeLoop cache hs (e # es) c
     = (fst (priceChangeLoop cache hs es c1),
        CacheUpsertPriceChange e # snd (priceChangeLoop cache hs es c1))"
  by (simp add: priceChangeEvent_def split_beta)

lemma priceChangeLoop_skip_midpoint:
  "upsertPriceChange cache e c = Inr c1 \<Longrightarrow>
   spreadOver cache (asset_key e) (1 / 10) c1 = Inr (False, c2) \<Longrightarrow>
   midpoint cache (asset_key e) c2 = Inl err \<Longrightarrow>
   priceChangeLoop cache hs (e # es) c
     = (fst (priceChangeLoop cache hs es c2),
        CacheUpsertPriceChange e # snd (priceChangeLoop cache hs es c2))"
  by (simp add: priceChangeEvent_def split_beta)

lemma priceChangeLoop_skip_entry:
  "upsertPriceChange cache e c = Inr c1 \<Longrightarrow>
   spreadOver cache (asset_key e) (1 / 10) c1 = Inr (False, c2) \<Longrightarrow>
   midpoint cache (asset_key e) c2 = Inr (p, c3) \<Longrightarrow>
   getBookEntry cache (asset_key e) c3 = None \<Longrightarrow>
   priceChangeLoop cache hs (e # es) c
     = (fst (priceChangeLoop cache hs es c3),
        CacheUpsertPriceChange e # snd (priceChangeLoop cache hs es c3))"
  by (simp add: priceChangeEvent_def split_beta)

lemma lastTradeLoop_skip_spread:
  "spreadOver cache (asset_key e) (1 / 10) c = Inl err \<Longrightarrow>
   lastTradeLoop np cache hs (e # es) c = lastTradeLoop np cache hs es c"
  by (simp add: lastTradeEvent_def split_beta)

lemma lastTradeLoop_skip_entry:
  "spreadOver cache (asset_key e) (1 / 10) c = Inr (True, c1) \<Longrightarrow>
   getBookEntry cache (asset_key e) c1 = None \<Longrightarrow>
   lastTradeLoop np cache hs (e # es) c = lastTradeLoop np cache hs es c1"
  by (simp add: lastTradeEvent_def split_beta)

text \<open>C4, as amended: the trace of a frame is the reports of unknown kinds, then the
  book bucket, the tick bucket, the price-change bucket and the last-trade bucket, each
  only when it is not empty. In the book bucket \<^verbatim>\<open>replaceBook\<close> is applied to every
  event first and \<^verbatim>\<open>onBook\<close> is then called with the whole batch; in the
  price-change bucket \<^verbatim>\<open>onPriceChange\<close> is called with the whole batch first and
  \<^verbatim>\<open>upsertPriceChange\<close> is then applied once to each event in order, with price
  updates in between. Whatever the cache, an error of \<^verbatim>\<open>upsertPriceChange\<close>,
  \<^verbatim>\<open>spreadOver\<close> or \<^verbatim>\<open>midpoint\<close>, or an entry that
  \<^verbatim>\<open>getBookEntry\<close> does not find, skips the event: the loop goes on with the next
  one.\<close>

theorem frame_order:
  "(\<exists>errs pc_rest lt_rest.
      snd (handleEvents np cache s evs)
        = errs
          @ (if bookEvents (frameBuckets s evs) = [] then []
             else map CacheReplaceBook (bookEvents (frameBuckets s evs))
                  @ invoke (onBook (handlers s)) (OnBook (bookEvents (frameBuckets s evs))))
          @ (if tickEvents (frameBuckets s evs) = [] then []
             else invoke (onTickSizeChange (handlers s))
                    (OnTickSizeChange (tickEvents (frameBuckets s evs))))
          @ (if priceChangeEvents (frameBuckets s evs) = [] then []
             else invoke (onPriceChange (handlers s))
                    (OnPriceChange (priceChangeEvents (frameBuckets s evs)))
                  @ pc_rest)
          @ (if lastTradeEvents (frameBuckets s evs) = [] then []
             else invoke (onLastTradePrice (handlers s))
                    (OnLastTradePrice (lastTradeEvents (frameBuckets s evs)))
                  @ lt_rest)
      \<and> list_all is_error errs
      \<and> filter is_cache_op pc_rest = map CacheUpsertPriceChange (priceChangeEvents (frameBuckets s evs))
      \<and> list_all (\<lambda>a. is_cache_op a \<or> is_price_update a) pc_rest
      \<and> list_all is_price_update lt_rest)
   \<and> (upsertPriceChange cache e c = Inl err \<longrightarrow>
        priceChangeLoop cache hs (e # es) c
          = (fst (priceChangeLoop cache hs es c),
             CacheUpsertPriceChange e # snd (priceChangeLoop cache hs es c)))
   \<and> (upsertPriceChange cache e c = Inr c1
        \<and> spreadOver cache (asset_key e) (1 / 10) c1 = Inl err \<longrightarrow>
        priceChangeLoop cache hs (e # es) c
          = (fst (priceChangeLoop cache hs es c1),
             CacheUpsertPriceChange e # snd (priceChangeLoop cache hs es c1)))
   \<and> (upsertPriceChange cache e c = Inr c1
        \<and> spreadOver cache (asset_key e) (1 / 10) c1 = Inr (False, c2)
        \<and> midpoint cache (asset_key e) c2 = Inl err \<longrightarrow>
        priceChangeLoop cache hs (e # es) c
          = (fst (priceChangeLoop cache hs es c2),
             CacheUpsertPriceChange e # snd (priceChangeLoop cache hs es c2)))
   \<and> (upsertPriceChange cache e c = Inr c1
        \<and> spreadOver cache (asset_key e) (1 / 10) c1 = Inr (False, c2)
        \<and> midpoint cache (asset_key e) c2 = Inr (p, c3)
        \<and> getBookEntry cache (asset_key e) c3 = None \<longrightarrow>
        priceChangeLoop cache hs (e # es) c
          = (fst (priceChangeLoop cache hs es c3),
             CacheUpsertPriceChange e # snd (priceChangeLoop cache hs es c3)))
   \<and> (spreadOver cache (asset_key e) (1 / 10) c = Inl err \<longrightarrow>
        lastTradeLoop np cache hs (e # es) c = lastTradeLoop np cache hs es c)
   \<and> (spreadOver cache (asset_key e) (1 / 10) c = Inr (True, c1)
        \<and> getBookEntry cache (asset_key e) c1 = None \<longrightarrow>
        lastTradeLoop np cache hs (e # es) c = lastTradeLoop np cache hs es c1)"
proof -
  let ?b = "frameBuckets s evs"
  let ?errs = "snd (bucketEvents (handlers s) (assetIds (group s))
                   (filter (\<lambda>e. 0 < lodash_size (asset_id e)) evs))"
  let ?pc = "snd (priceChangeLoop cache (handlers s) (priceChangeEvents ?b)
                   (cacheAtPriceChanges cache s evs))"
  let ?lt = "snd (lastTradeLoop np cache (handlers s) (lastTradeEvents ?b)
                   (cacheAtLastTrades cache s evs))"
  have "snd (handleEvents np cache s evs)
        = ?errs
          @ (if bookEvents ?b = [] then []
             else map CacheReplaceBook (bookEvents ?b) @ invoke (onBook (handlers s)) (OnBook (bookEvents ?b)))
          @ (if tickEvents ?b = [] then []
             else invoke (onTickSizeChange (handlers s)) (OnTickSizeChange (tickEvents ?b)))
          @ (if priceChangeEvents ?b = [] then []
             else invoke (onPriceChange (handlers s)) (OnPriceChange (priceChangeEvents ?b)) @ ?pc)
          @ (if lastTradeEvents ?b = [] then []
             else invoke (onLastTradePrice (handlers s)) (OnLastTradePrice (lastTradeEvents ?b)) @ ?lt)"
    by (simp add: handleEvents_trace traceBeforePriceChanges_def handleBookEvents_trace
        handlePriceChangeEvents_trace handleLastTradeEvents_trace handleTickEvents_def)
  moreover have "list_all is_error ?errs"
    by (rule bucketEvents_errors)
  moreover have "filter is_cache_op ?pc = map CacheUpsertPriceChange (priceChangeEvents ?b)"
    by (rule priceChangeLoop_upserts)
  moreover have "list_all (\<lambda>a. is_cache_op a \<or> is_price_update a) ?pc"
    using priceChangeLoop_actions [of cache "handlers s" "priceChangeEvents ?b"
        "cacheAtPriceChanges cache s evs"]
    by (simp add: list_all_iff)
  moreover have "list_all is_price_update ?lt"
    using lastTradeLoop_actions [of np cache "handlers s" "lastTradeEvents ?b"
        "cacheAtLastTrades cache s evs"]
    by (simp add: list_all_iff)
  ultimately have order: "\<exists>errs pc_rest lt_rest.
      snd (handleEvents np cache s evs)
        = errs
          @ (if bookEvents (frameBuckets s evs) = [] then []
             else map CacheReplaceBook (bookEvents (frameBuckets s evs))
                  @ invoke (onBook (handlers s)) (OnBook (bookEvents (frameBuckets s evs))))
          @ (if tickEvents (frameBuckets s evs) = [] then []
             else invoke (onTickSizeChange (handlers s))
                    (OnTickSizeChange (tickEvents (frameBuckets s evs))))
          @ (if priceChangeEvents (frameBuckets s evs) = [] then []
             else invoke (onPriceChange (handlers s))
                    (OnPriceChange (priceChangeEvents (frameBuckets s evs)))
                  @ pc_rest)
          @ (if lastTradeEvents (frameBuckets s evs) = [] then []
             else invoke (onLastTradePrice (handlers s))
                    (OnLastTradePrice (lastTradeEvents (frameBuckets s evs)))
                  @ lt_rest)
      \<and> list_all is_error errs
      \<and> filter is_cache_op pc_rest = map CacheUpsertPriceChange (priceChangeEvents (frameBuckets s evs))
      \<and> list_all (\<lambda>a. is_cache_op a \<or> is_price_update a) pc_rest
      \<and> list_all is_price_update lt_rest"
    by blast
  show ?thesis
    using order priceChangeLoop_skip_upsert [of cache e c err hs es]
      priceChangeLoop_skip_spread [of cache e c c1 err hs es]
      priceChangeLoop_skip_midpoint [of cache e c c1 c2 err hs es]
      priceChangeLoop_skip_entry [of cache e c c1 c2 p c3 hs es]
      lastTradeLoop_skip_spread [of cache e c err np hs es]
      lastTradeLoop_skip_entry [of cache e c c1 np hs es]
    by blast
qed

theorem frame_order_witness:
  "snd (handleEvents strip_trailing_zeros specOrderBookCache
          (socket_a (Some open_socket) Map.empty) mixed_frame)
     = [CacheReplaceBook book_event_a, OnBook [book_event_a],
        OnTickSizeChange [tick_event_a],
        OnPriceChange [book_apply_event], CacheUpsertPriceChange book_apply_event,
        OnPolymarketPriceUpdate
          [priceUpdateEvent book_apply_event
             \<lparr> be_bids = [level (59 / 100) 5], be_asks = [level (31 / 50) 8], be_price = [],
               be_midpoint = ''0.605'', be_spread = ''0.03'', be_hash = ''h'',
               be_timestamp = ''1700000000000'' \<rparr> ''0.605''],
        OnLastTradePrice [trade_event ''0.61'']]
   \<and> priceChangeLoop specOrderBookCache all_handlers [book_apply_event] Map.empty
     = (Map.empty, [CacheUpsertPriceChange book_apply_event])
   \<and> priceChangeLoop specOrderBookCache all_handlers [no_change_event] one_sided_cache
     = (one_sided_cache, [CacheUpsertPriceChange no_change_event])
   \<and> priceChangeLoop cache_failing_midpoint all_handlers [no_change_event]
        (cache_a (3 / 5) (31 / 50) [])
     = ([''a'' \<mapsto> (book_a (3 / 5) (31 / 50) [])\<lparr> be_spread := ''0.02'' \<rparr>],
        [CacheUpsertPriceChange no_change_event])
   \<and> priceChangeLoop cache_losing_entries all_handlers [no_change_event]
        (cache_a (3 / 5) (31 / 50) [])
     = ([''a'' \<mapsto> (book_a (3 / 5) (31 / 50) [])
                      \<lparr> be_midpoint := ''0.61'', be_spread := ''0.02'' \<rparr>],
        [CacheUpsertPriceChange no_change_event])
   \<and> lastTradeLoop strip_trailing_zeros specOrderBookCache all_handlers
        [trade_event ''0.61''] Map.empty
     = (Map.empty, [])
   \<and> lastTradeLoop strip_trailing_zeros cache_losing_entries all_handlers
        [trade_event ''0.7000''] (cache_a (3 / 5) (18 / 25) [])
     = ([''a'' \<mapsto> (book_a (3 / 5) (18 / 25) [])\<lparr> be_spread := ''0.12'' \<rparr>], [])"
  using frame_order [where np = strip_trailing_zeros and cache = specOrderBookCache
      and s = "socket_a (Some open_socket) Map.empty" and evs = mixed_frame
      and e = book_apply_event and c = Map.empty and err = BookNotFound
      and hs = all_handlers and es = "[]" and ?c1.0 = Map.empty and ?c2.0 = Map.empty
      and p = "[]" and ?c3.0 = Map.empty]
    frame_order [where np = strip_trailing_zeros and cache = specOrderBookCache
      and s = "socket_a (Some open_socket) Map.empty" and evs = "[]"
      and e = no_change_event and c = one_sided_cache and err = IncompleteBook
      and hs = all_handlers and es = "[]" and ?c1.0 = one_sided_cache
      and ?c2.0 = Map.empty and p = "[]" and ?c3.0 = Map.empty]
    frame_order [where np = strip_trailing_zeros and cache = cache_failing_midpoint
      and s = "socket_a (Some open_socket) Map.empty" and evs = "[]"
      and e = no_change_event and c = "cache_a (3 / 5) (31 / 50) []" and err = IncompleteBook
      and hs = all_handlers and es = "[]" and ?c1.0 = "cache_a (3 / 5) (31 / 50) []"
      and ?c2.0 = "[''a'' \<mapsto> (book_a (3 / 5) (31 / 50) [])\<lparr> be_spread := ''0.02'' \<rparr>]"
      and p = "[]" and ?c3.0 = Map.empty]
    frame_order [where np = strip_trailing_zeros and cache = cache_losing_entries
      and s = "socket_a (Some open_socket) Map.empty" and evs = "[]"
      and e = no_change_event and c = "cache_a (3 / 5) (31 / 50) []" and err = IncompleteBook
      and hs = all_handlers and es = "[]" and ?c1.0 = "cache_a (3 / 5) (31 / 50) []"
      and ?c2.0 = "[''a'' \<mapsto> (book_a (3 / 5) (31 / 50) [])\<lparr> be_spread := ''0.02'' \<rparr>]"
      and p = "''0.61''"
      and ?c3.0 = "[''a'' \<mapsto> (book_a (3 / 5) (31 / 50) [])
                      \<lparr> be_midpoint := ''0.61'', be_spread := ''0.02'' \<rparr>]"]
    frame_order [where np = strip_trailing_zeros and cache = specOrderBookCache
      and s = "socket_a (Some open_socket) Map.empty" and evs = "[]"
      and e = "trade_event ''0.61''" and c = Map.empty and err = BookNotFound
      and hs = all_handlers and es = "[]" and ?c1.0 = Map.empty and ?c2.0 = Map.empty
      and p = "[]" and ?c3.0 = Map.empty]
    frame_order [where np = strip_trailing_zeros and cache = cache_losing_entries
      and s = "socket_a (Some open_socket) Map.empty" and evs = "[]"
      and e = "trade_event ''0.7000''" and c = "cache_a (3 / 5) (18 / 25) []"
      and err = BookNotFound and hs = all_handlers and es = "[]"
      and ?c1.0 = "[''a'' \<mapsto> (book_a (3 / 5) (18 / 25) [])\<lparr> be_spread := ''0.12'' \<rparr>]"
      and ?c2.0 = Map.empty and p = "[]" and ?c3.0 = Map.empty]
  by (simp add: eval_defs book_defs decimal_string_examples mixed_frame_def book_event_a_def
      book_apply_event_def tick_event_a_def trade_event_def no_change_event_def
      one_sided_cache_def cache_failing_midpoint_def cache_losing_entries_def
      strip_trailing_zeros_def Let_def)

text \<open>C4 as stated fails for the book bucket: on a frame with one book event the cache
  is replaced before \<^verbatim>\<open>onBook\<close> is called.\<close>

theorem book_before_handler_counterexample:
  "snd (handleMessage (\<lambda>d. Some (Single book_event_a)) strip_trailing_zeros
          specOrderBookCache (socket_a (Some open_socket) Map.empty) ''frame'')
   = [CacheReplaceBook book_event_a, OnBook [book_event_a]]"
  by (simp add: eval_defs book_event_a_def)

section \<open>Events of an unknown kind\<close>

lemma bucketEvents_known:
  "fst (bucketEvents hs keys (filter (\<lambda>e. \<not> unknownKind e \<and> P e) evs))
     = fst (bucketEvents hs keys (filter P evs))
   \<and> snd (bucketEvents hs keys (filter (\<lambda>e. \<not> unknownKind e \<and> P e) evs)) = []"
  by (induction evs) (auto simp add: split_beta Let_def unknownKind_def)

lemma bucketEvents_unknown:
  "snd (bucketEvents hs keys evs)
   = (if onError hs
      then map (\<lambda>e. OnError (UnknownEvent e))
             (filter (\<lambda>e. has keys (asset_id e) \<and> unknownKind e) evs)
      else [])"
  by (induction evs) (auto simp add: split_beta Let_def unknownKind_def invoke_def)

lemma frameBuckets_known:
  "frameBuckets s (filter (\<lambda>e. \<not> unknownKind e) evs) = frameBuckets s evs"
  by (simp add: frameBuckets_def bucketEvents_known)

lemma frame_errors:
  "snd (bucketEvents (handlers s) (assetIds (group s)) (filter (\<lambda>e. 0 < lodash_size (asset_id e)) evs))
   = (if onError (handlers s)
      then map (\<lambda>e. OnError (UnknownEvent e)) (filter (\<lambda>e. \<not> dropped s e \<and> unknownKind e) evs)
      else [])"
proof -
  have "filter (\<lambda>e. has (assetIds (group s)) (asset_id e) \<and> unknownKind e)
          (filter (\<lambda>e. 0 < lodash_size (asset_id e)) evs)
        = filter (\<lambda>e. \<not> dropped s e \<and> unknownKind e) evs"
    by (induction evs) (auto simp add: not_dropped_iff)
  then show ?thesis by (simp add: bucketEvents_unknown)
qed

lemma frame_parts_known:
  "cacheAtPriceChanges cache s (filter (\<lambda>e. \<not> unknownKind e) evs) = cacheAtPriceChanges cache s evs"
  "cacheAtLastTrades cache s (filter (\<lambda>e. \<not> unknownKind e) evs) = cacheAtLastTrades cache s evs"
  by (simp_all add: cacheAtPriceChanges_def cacheAtLastTrades_def frameBuckets_known)

text \<open>On the market socket every event that is not dropped and whose kind is none of
  the four is reported by one call of \<^verbatim>\<open>onError\<close>, in frame order and before any
  batch handler, when that handler is defined; apart from these calls the frame is
  handled as if the events of unknown kind were not in it.\<close>

lemma market_unknown_kinds:
  "snd (handleEvents np cache s evs)
     = (if onError (handlers s)
        then map (\<lambda>e. OnError (UnknownEvent e)) (filter (\<lambda>e. \<not> dropped s e \<and> unknownKind e) evs)
        else [])
       @ snd (handleEvents np cache s (filter (\<lambda>e. \<not> unknownKind e) evs))
   \<and> fst (handleEvents np cache s evs)
     = fst (handleEvents np cache s (filter (\<lambda>e. \<not> unknownKind e) evs))"
proof (intro conjI)
  let ?evs = "filter (\<lambda>e. \<not> unknownKind e) evs"
  have none: "snd (bucketEvents (handlers s) (assetIds (group s))
                 (filter (\<lambda>e. 0 < lodash_size (asset_id e)) ?evs)) = []"
    by (simp add: bucketEvents_known)
  have before: "traceBeforePriceChanges cache s evs
      = (if onError (handlers s)
         then map (\<lambda>e. OnError (UnknownEvent e))
                (filter (\<lambda>e. \<not> dropped s e \<and> unknownKind e) evs)
         else [])
        @ traceBeforePriceChanges cache s ?evs"
    unfolding traceBeforePriceChanges_def none frameBuckets_known frame_errors
    by (auto simp add: filter_empty_conv)
  show "snd (handleEvents np cache s evs)
     = (if onError (handlers s)
        then map (\<lambda>e. OnError (UnknownEvent e)) (filter (\<lambda>e. \<not> dropped s e \<and> unknownKind e) evs)
        else [])
       @ snd (handleEvents np cache s ?evs)"
    by (simp only: handleEvents_trace frame_parts_known frameBuckets_known before append_assoc)
  show "fst (handleEvents np cache s evs) = fst (handleEvents np cache s ?evs)"
    by (simp only: handleEvents_state frame_parts_known frameBuckets_known)
qed

text \<open>The trace of the user socket for parsed events holds calls of
  \<^verbatim>\<open>onOrder\<close> and \<^verbatim>\<open>onTrade\<close> only: nothing is ever reported to
  \<^verbatim>\<open>onError\<close>.\<close>

lemma user_trace_no_errors:
  "list_all (\<lambda>a. \<not> is_error a) (snd (handleEvents_user us uevs))"
  by (simp add: handleEvents_user_def split_beta invoke_def Let_def)

text \<open>C7: an event whose kind is not recognized is to be reported to
  \<^verbatim>\<open>onError\<close> and discarded, on both variants. The user socket with
  \<^verbatim>\<open>onError\<close> defined, at a frame of one event of the kind \<open>nonsense\<close> for its
  market: the socket is unchanged and nothing is called. The market socket at the
  corresponding frame reports the event.\<close>

theorem user_unknown_kind_not_reported:
  "u_onError (u_handlers (user_socket_m (Some open_socket)))
   \<and> handleMessage_user (\<lambda>d. Some (Single (user_event ''nonsense'' ''m'')))
        (user_socket_m (Some open_socket)) ''frame''
     = (user_socket_m (Some open_socket), [])
   \<and> handleMessage (\<lambda>d. Some (Single (market_event ''nonsense'' ''a''))) strip_trailing_zeros
        specOrderBookCache (socket_a (Some open_socket) Map.empty) ''frame''
     = (socket_a (Some open_socket) Map.empty,
        [OnError (UnknownEvent (market_event ''nonsense'' ''a''))])"
  by (simp add: eval_defs handleMessage_user_def handleEvents_user_def validStructure_def
      isOrderEvent_def isTradeEvent_def user_event_def user_socket_m_def all_user_handlers_def)

section \<open>Derived price updates\<close>




lemma book_spread_derived [simp]:
  "book_spread (be\<lparr> be_spread := x \<rparr>) = book_spread be"
  "book_spread (be\<lparr> be_midpoint := y \<rparr>) = book_spread be"
  "book_spread (be\<lparr> be_price := z \<rparr>) = book_spread be"
  "book_midpoint (be\<lparr> be_spread := x \<rparr>) = book_midpoint be"
  "book_midpoint (be\<lparr> be_midpoint := y \<rparr>) = book_midpoint be"
  "book_midpoint (be\<lparr> be_price := z \<rparr>) = book_midpoint be"
  by (simp_all add: book_spread_def book_midpoint_def)







section \<open>Filtering before dispatch\<close>

lemma group_indices_length:
  "length (getGroupIndicesForAsset groups a) = length (filter (\<lambda>g. has (assetIds g) a) groups)"
proof -
  have "filter (\<lambda>g. has (assetIds g) a) groups
        = filter (\<lambda>g. has (assetIds g) a) (map (\<lambda>i. groups ! i) [0..<length groups])"
    by (simp add: map_nth)
  also have "\<dots> = map (\<lambda>i. groups ! i) (getGroupIndicesForAsset groups a)"
    by (simp add: getGroupIndicesForAsset_def filter_map comp_def)
  finally show ?thesis by simp
qed

lemma group_indices_nonempty:
  "(0 < length (getGroupIndicesForAsset groups a)) = (\<exists>g \<in> set groups. has (assetIds g) a)"
  by (simp add: group_indices_length filter_empty_conv)

text \<open>C5: the market filter keeps exactly the events whose \<open>asset_id\<close> is a key
  of at least one group and warns once for each event whose asset is in more than one;
  the user filter returns the batch as it is when some group has
  \<^verbatim>\<open>subscribeToAll\<close> and otherwise keeps exactly the events whose market is a key
  of some group; each of the seven wrapped handlers, when the user supplied the callback,
  calls it once with the filtered batch, whether or not that batch is empty, and calls
  nothing otherwise.\<close>

theorem dispatch_filter:
  "fst (filterSubscribedEvents asset_of groups events)
     = filter (\<lambda>ev. \<exists>g \<in> set groups. has (assetIds g) (asset_of ev)) events
   \<and> snd (filterSubscribedEvents asset_of groups events)
     = map (\<lambda>ev. WarnMultipleGroups (asset_of ev) (getGroupIndicesForAsset groups (asset_of ev)))
         (filter (\<lambda>ev. 1 < length (filter (\<lambda>g. has (assetIds g) (asset_of ev)) groups)) events)
   \<and> fst (filterSubscribedEvents_user user_groups user_events)
     = (if \<exists>g \<in> set user_groups. subscribeToAll g then user_events
        else filter (\<lambda>ev. \<exists>g \<in> set user_groups. market_key ev \<in> set (marketIds g)) user_events)
   \<and> fst (setupHandlers_onBook hs groups evs)
     = (if onBook hs then [OnBook (fst (filterSubscribedEvents asset_id groups evs))] else [])
   \<and> fst (setupHandlers_onTickSizeChange hs groups evs)
     = (if onTickSizeChange hs
        then [OnTickSizeChange (fst (filterSubscribedEvents asset_id groups evs))] else [])
   \<and> fst (setupHandlers_onPriceChange hs groups evs)
     = (if onPriceChange hs
        then [OnPriceChange (fst (filterSubscribedEvents asset_id groups evs))] else [])
   \<and> fst (setupHandlers_onLastTradePrice hs groups evs)
     = (if onLastTradePrice hs
        then [OnLastTradePrice (fst (filterSubscribedEvents asset_id groups evs))] else [])
   \<and> fst (setupHandlers_onPolymarketPriceUpdate hs groups updates)
     = (if onPolymarketPriceUpdate hs
        then [OnPolymarketPriceUpdate (fst (filterSubscribedEvents pu_asset_id groups updates))]
        else [])
   \<and> fst (setupHandlers_onOrder uhs user_groups user_events)
     = (if onOrder uhs then [OnOrder (fst (filterSubscribedEvents_user user_groups user_events))]
        else [])
   \<and> fst (setupHandlers_onTrade uhs user_groups user_events)
     = (if onTrade uhs then [OnTrade (fst (filterSubscribedEvents_user user_groups user_events))]
        else [])"
proof -
  have keep: "fst (filterSubscribedEvents proj gs xs)
     = filter (\<lambda>ev. \<exists>g \<in> set gs. has (assetIds g) (proj ev)) xs"
    for proj :: "'x \<Rightarrow> string option" and gs xs
    by (simp add: filterSubscribedEvents_def group_indices_nonempty del: length_greater_0_conv)
  have warn: "snd (filterSubscribedEvents asset_of groups events)
     = map (\<lambda>ev. WarnMultipleGroups (asset_of ev) (getGroupIndicesForAsset groups (asset_of ev)))
         (filter (\<lambda>ev. 1 < length (filter (\<lambda>g. has (assetIds g) (asset_of ev)) groups)) events)"
    by (induction events)
       (simp_all add: filterSubscribedEvents_def Let_def group_indices_length)
  have act: "fst (actOnSubscribedEvents f xs (callback d k)) = (if d then [k (fst (f xs))] else [])"
    for f :: "'x list \<Rightarrow> 'x list \<times> log_entry list" and xs d k
    by (simp add: actOnSubscribedEvents_def callback_def split_beta)
  have user: "fst (filterSubscribedEvents_user user_groups user_events)
     = (if \<exists>g \<in> set user_groups. subscribeToAll g then user_events
        else filter (\<lambda>ev. \<exists>g \<in> set user_groups. market_key ev \<in> set (marketIds g)) user_events)"
    by (simp add: filterSubscribedEvents_user_def hasSubscribeToAll_def hasMarket_def
        list_ex_iff market_key_def)
  show ?thesis
    unfolding setupHandlers_onBook_def setupHandlers_onTickSizeChange_def
        setupHandlers_onPriceChange_def setupHandlers_onLastTradePrice_def
        setupHandlers_onPolymarketPriceUpdate_def setupHandlers_onOrder_def
        setupHandlers_onTrade_def act
    using keep [of asset_of groups events] warn user by blast
qed

theorem dispatch_filter_witness:
  "filterSubscribedEvents asset_id [group_a None, group_ab]
       [market_event ''book'' ''a'', market_event ''book'' ''z'', market_event ''book'' ''b'']
     = ([market_event ''book'' ''a'', market_event ''book'' ''b''],
        [WarnMultipleGroups (Some ''a'') [0, 1]])
   \<and> setupHandlers_onBook all_handlers [group_a None, group_ab] [market_event ''book'' ''z'']
     = ([OnBook []], [])
   \<and> fst (filterSubscribedEvents_user [user_group_m None]
            [user_event ''order'' ''m'', user_event ''order'' ''x''])
     = [user_event ''order'' ''m'']
   \<and> fst (setupHandlers_onOrder all_user_handlers [user_group_m None, pinned_group]
            [user_event ''order'' ''m'', user_event ''order'' ''x''])
     = [OnOrder [user_event ''order'' ''m'', user_event ''order'' ''x'']]"
  using dispatch_filter [where asset_of = asset_id and groups = "[group_a None, group_ab]"
      and events = "[market_event ''book'' ''a'', market_event ''book'' ''z'',
                     market_event ''book'' ''b'']"
      and user_groups = "[user_group_m None]"
      and user_events = "[user_event ''order'' ''m'', user_event ''order'' ''x'']"
      and hs = all_handlers and evs = "[market_event ''book'' ''z'']"
      and uhs = all_user_handlers and updates = "[]"]
    dispatch_filter [where asset_of = asset_id and groups = "[]" and events = "[]"
      and user_groups = "[user_group_m None, pinned_group]"
      and user_events = "[user_event ''order'' ''m'', user_event ''order'' ''x'']"
      and hs = all_handlers and evs = "[]" and uhs = all_user_handlers and updates = "[]"]
  by (simp add: filterSubscribedEvents_def filterSubscribedEvents_user_def
      getGroupIndicesForAsset_def has_def hasSubscribeToAll_def hasMarket_def
      setupHandlers_onBook_def setupHandlers_onOrder_def actOnSubscribedEvents_def callback_def
      group_a_def group_ab_def user_group_m_def pinned_group_def market_event_def
      user_event_def all_handlers_def all_user_handlers_def market_key_def Let_def)

end
